theory Spec2Isabelle
  imports Complex_Main "HOL-Library.Word"
begin

section \<open>The TF Detection API converter of Datumaro\<close>

text \<open>
  A shallow embedding of
  \<^verbatim>\<open>datumaro/plugins/tf_detection_api_format/converter.py\<close>:
  the instance grouper (\<^verbatim>\<open>_find_instances\<close>, \<^verbatim>\<open>_find_instance_parts\<close>,
  \<^verbatim>\<open>find_group_leader\<close>, \<^verbatim>\<open>_compute_bbox\<close>), the feature encoder
  (\<^verbatim>\<open>_export_instances\<close>, \<^verbatim>\<open>_make_tf_example\<close>) and the loop of
  \<^verbatim>\<open>__call__\<close> that writes one record per item.

  Conventions of the model.
  \<^item> A Python \<^verbatim>\<open>str\<close> is the list of its code points (\<open>pystr\<close>), each below
    U+110000; a Python \<^verbatim>\<open>bytes\<close> is a list of 8-bit words.
    \<^verbatim>\<open>encode('utf-8')\<close> raises on a lone surrogate.
  \<^item> Coordinates and areas are Python numbers (int or float); they are modelled as
    \<open>real\<close>, so the rounding of floating-point arithmetic is not part of the model,
    and a division by zero raises. (A rectangle held in numpy scalars would give an
    infinite or undefined quotient instead; such rectangles are outside the model.)
  \<^item> An exception is a value: every function that can raise returns \<open>error + 'a\<close>.
    The failures of the operating system (creating a directory, opening a file) and of
    the utilities \<^verbatim>\<open>merge_masks\<close> and \<^verbatim>\<open>encode_image\<close> are not modelled.
\<close>

subsection \<open>Data model\<close>

type_synonym pystr = "nat list"
type_synonym bytes = "8 word list"

datatype error =
    ValueError
  | IndexError
  | ZeroDivisionError
  | UnicodeEncodeError
  | Exception pystr

text \<open>The members of \<^verbatim>\<open>AnnotationType\<close> (datumaro.components.extractor).\<close>

datatype annotation_type =
  T_label | T_mask | T_points | T_polygon | T_polyline | T_bbox | T_caption

text \<open>
  Modelled from the spec: the annotation classes live in
  \<^verbatim>\<open>datumaro.components.extractor\<close>, which is not part of the sources at hand.
  An annotation has a kind, an optional group id, an optional label reference, a
  spatial area (\<^verbatim>\<open>get_area()\<close>), a bounding rectangle \<open>(x, y, width, height)\<close>
  (\<^verbatim>\<open>get_bbox()\<close>) and, for a mask, its raster (\<^verbatim>\<open>image\<close>). The type
  \<open>'m\<close> is the type of rasters.
\<close>

record 'm annotation =
  type :: annotation_type
  group :: "int option"
  label :: "int option"
  get_area :: real
  get_bbox :: "real \<times> real \<times> real \<times> real"
  mask_image :: 'm

subsection \<open>The instance grouper\<close>

text \<open>
  \<^verbatim>\<open>itertools.groupby(iterable, key)\<close>: one pair (key, run) for every maximal run of
  consecutive elements with equal keys.
\<close>

function groupby :: "('a \<Rightarrow> 'k) \<Rightarrow> 'a list \<Rightarrow> ('k \<times> 'a list) list" where
  "groupby key [] = []"
| "groupby key (x # xs) =
     (key x, x # takeWhile (\<lambda>y. key y = key x) xs)
       # groupby key (dropWhile (\<lambda>y. key y = key x) xs)"
  by pat_completeness auto
termination
  by (relation "measure (\<lambda>(key, xs). length xs)")
     (auto simp: length_dropWhile_le less_Suc_eq_le)

text \<open>
  \<^verbatim>\<open>_find_instance_anns\<close>: the annotations of kind bbox or mask, in their order.
\<close>

definition find_instance_anns :: "'m annotation list \<Rightarrow> 'm annotation list" where
  "find_instance_anns annotations =
     filter (\<lambda>a. type a \<in> {T_bbox, T_mask}) annotations"

text \<open>Python's truth value of a group id: \<^verbatim>\<open>None\<close> and \<open>0\<close> are falsy.\<close>

definition falsy :: "int option \<Rightarrow> bool" where
  "falsy g_id = (g_id = None \<or> g_id = Some 0)"

text \<open>
  The loop of \<^verbatim>\<open>_find_instances\<close> over the runs of \<open>groupby\<close>; \<open>ann_groups\<close> is
  the list under construction.
\<close>

fun find_instances_loop ::
  "(int option \<times> 'm annotation list) list \<Rightarrow> 'm annotation list list
     \<Rightarrow> 'm annotation list list" where
  "find_instances_loop [] ann_groups = ann_groups"
| "find_instances_loop ((g_id, grp) # rest) ann_groups =
     (if falsy g_id
      then find_instances_loop rest (ann_groups @ map (\<lambda>a. [a]) grp)
      else find_instances_loop rest (ann_groups @ [grp]))"

definition find_instances :: "'m annotation list \<Rightarrow> 'm annotation list list" where
  "find_instances annotations =
     find_instances_loop (groupby group (find_instance_anns annotations)) []"

text \<open>
  Python's \<^verbatim>\<open>min(values, default=d)\<close> and \<^verbatim>\<open>max(values, default=d)\<close>: the default for
  an empty collection; otherwise a scan that starts from the first element and replaces
  the current result only by a strictly smaller (greater) one.
\<close>

definition py_min :: "real list \<Rightarrow> real \<Rightarrow> real" where
  "py_min values d =
     (case values of
        [] \<Rightarrow> d
      | v # rest \<Rightarrow> fold (\<lambda>item best. if item < best then item else best) rest v)"

definition py_max :: "real list \<Rightarrow> real \<Rightarrow> real" where
  "py_max values d =
     (case values of
        [] \<Rightarrow> d
      | v # rest \<Rightarrow> fold (\<lambda>item best. if best < item then item else best) rest v)"

text \<open>
  \<^verbatim>\<open>max(group, key=...)\<close>: the scan keeps the first element whose key is maximal;
  on an empty list Python raises \<^verbatim>\<open>ValueError\<close>.
\<close>

fun max_key :: "('a \<Rightarrow> real) \<Rightarrow> 'a \<Rightarrow> 'a list \<Rightarrow> 'a" where
  "max_key key best [] = best"
| "max_key key best (item # rest) =
     max_key key (if key best < key item then item else best) rest"

definition find_group_leader :: "'m annotation list \<Rightarrow> error + 'm annotation" where
  "find_group_leader grp =
     (case grp of
        [] \<Rightarrow> Inl ValueError
      | a # rest \<Rightarrow> Inr (max_key get_area a rest))"

definition compute_bbox :: "'m annotation list \<Rightarrow> real \<times> real \<times> real \<times> real" where
  "compute_bbox annotations =
     (let boxes = map get_bbox annotations;
          x0 = py_min (map (\<lambda>(b0, b1, b2, b3). b0) boxes) 0;
          y0 = py_min (map (\<lambda>(b0, b1, b2, b3). b1) boxes) 0;
          x1 = py_max (map (\<lambda>(b0, b1, b2, b3). b0 + b2) boxes) 0;
          y1 = py_max (map (\<lambda>(b0, b1, b2, b3). b1 + b3) boxes) 0
      in (x0, y0, x1 - x0, y1 - y0))"

text \<open>
  The converter object: its two flags, and the collaborators and constants that the
  module imports from elsewhere in Datumaro (\<^verbatim>\<open>merge_masks\<close>, \<^verbatim>\<open>encode_image\<close>,
  \<^verbatim>\<open>DetectionApiPath\<close>, \<^verbatim>\<open>DEFAULT_SUBSET_NAME\<close>), taken as parameters.
  \<^verbatim>\<open>merge_masks\<close> returns \<^verbatim>\<open>None\<close> or one merged raster.
\<close>

record 'm converter =
  save_images :: bool
  save_masks :: bool
  merge_masks :: "'m list \<Rightarrow> 'm option"
  encode_image :: "'m \<Rightarrow> pystr \<Rightarrow> bytes"
  LABELMAP_FILE :: pystr
  IMAGE_EXT :: pystr
  IMAGE_FORMAT :: pystr
  DEFAULT_SUBSET_NAME :: pystr

type_synonym 'm instance_parts =
  "'m annotation \<times> 'm option \<times> (real \<times> real \<times> real \<times> real)"

definition find_instance_parts ::
  "'m converter \<Rightarrow> 'm annotation list \<Rightarrow> int \<Rightarrow> int \<Rightarrow> error + 'm instance_parts" where
  "find_instance_parts self grp img_width img_height =
     (let boxes = filter (\<lambda>a. type a = T_bbox) grp;
          masks = filter (\<lambda>a. type a = T_mask) grp;
          anns = boxes @ masks
      in case find_group_leader anns of
           Inl e \<Rightarrow> Inl e
         | Inr leader \<Rightarrow>
             (let bbox = compute_bbox anns;
                  mask' = (if save_masks self
                          then merge_masks self (map mask_image masks)
                          else None)
              in Inr (leader, mask', bbox)))"

subsection \<open>Strings and labels\<close>

text \<open>A string literal of the source, as code points.\<close>

definition lit :: "string \<Rightarrow> pystr" where
  "lit s = map of_char s"

text \<open>
  \<^verbatim>\<open>string.printable\<close> is digits, ASCII letters, punctuation and whitespace
  (space, tab, line feed, carriage return, vertical tab, form feed).
\<close>

definition string_printable :: pystr where
  "string_printable =
     [48..<58] @ [97..<123] @ [65..<91]
       @ ([33..<48] @ [58..<65] @ [91..<97] @ [123..<127])
       @ [32, 9, 10, 13, 11, 12]"

definition printable :: "nat set" where
  "printable = set string_printable"

definition make_printable :: "pystr \<Rightarrow> pystr" where
  "make_printable s = filter (\<lambda>x. x \<in> printable) s"

text \<open>
  \<^verbatim>\<open>str.encode('utf-8')\<close>: one to four bytes per code point; a lone surrogate
  (U+D800 to U+DFFF) has no encoding and raises \<^verbatim>\<open>UnicodeEncodeError\<close>.
\<close>

definition surrogate :: "nat \<Rightarrow> bool" where
  "surrogate c = (0xD800 \<le> c \<and> c \<le> 0xDFFF)"

definition utf8_char :: "nat \<Rightarrow> bytes" where
  "utf8_char c =
     (if c < 0x80 then [of_nat c]
      else if c < 0x800 then [of_nat (0xC0 + c div 64), of_nat (0x80 + c mod 64)]
      else if c < 0x10000 then
        [of_nat (0xE0 + c div 4096), of_nat (0x80 + c div 64 mod 64),
         of_nat (0x80 + c mod 64)]
      else
        [of_nat (0xF0 + c div 262144), of_nat (0x80 + c div 4096 mod 64),
         of_nat (0x80 + c div 64 mod 64), of_nat (0x80 + c mod 64)])"

definition encode_utf8 :: "pystr \<Rightarrow> error + bytes" where
  "encode_utf8 s =
     (if list_ex surrogate s then Inl UnicodeEncodeError
      else Inr (concat (map utf8_char s)))"

text \<open>
  The label catalog is the list of the names of \<^verbatim>\<open>label_categories.items\<close>.
  \<^verbatim>\<open>get_label\<close> indexes it as Python does: a negative index counts from the end,
  an index out of range raises \<^verbatim>\<open>IndexError\<close>; no label gives the empty name.
\<close>

definition get_label :: "pystr list \<Rightarrow> int option \<Rightarrow> error + pystr" where
  "get_label label_categories label_id =
     (case label_id of
        None \<Rightarrow> Inr []
      | Some i \<Rightarrow>
          (let n = int (length label_categories);
               j = (if i < 0 then n + i else i)
           in if 0 \<le> j \<and> j < n then Inr (label_categories ! nat j)
              else Inl IndexError))"

text \<open>
  An \<^verbatim>\<open>OrderedDict\<close> is an association list: storing under a key that is present
  replaces its value in place, storing under a new key appends.
\<close>

fun odict_set :: "'k \<Rightarrow> 'v \<Rightarrow> ('k \<times> 'v) list \<Rightarrow> ('k \<times> 'v) list" where
  "odict_set k v [] = [(k, v)]"
| "odict_set k v (p # ps) = (if fst p = k then (k, v) # ps else p # odict_set k v ps)"

text \<open>\<^verbatim>\<open>label_ids\<close>: from a name to one plus its index in the catalog.\<close>

definition label_ids :: "pystr list \<Rightarrow> (pystr \<times> int) list" where
  "label_ids label_categories =
     fold (\<lambda>(idx, name) d. odict_set name (1 + int idx) d)
       (enumerate 0 label_categories) []"

text \<open>\<^verbatim>\<open>map_label_id\<close> is \<^verbatim>\<open>label_ids.get(get_label(label_id), 0)\<close>.\<close>

definition map_label_id :: "pystr list \<Rightarrow> int option \<Rightarrow> error + int" where
  "map_label_id label_categories label_id =
     (case get_label label_categories label_id of
        Inl e \<Rightarrow> Inl e
      | Inr name \<Rightarrow>
          Inr (case map_of (label_ids label_categories) name of
                 None \<Rightarrow> 0
               | Some i \<Rightarrow> i))"

subsection \<open>The feature encoder\<close>

datatype feature =
    Int64List "int list"
  | BytesList "bytes list"
  | FloatList "real list"

text \<open>
  \<^verbatim>\<open>tf.train.Int64List\<close> holds 64-bit signed integers: a value outside their range
  raises \<^verbatim>\<open>ValueError\<close>.
\<close>

definition in_int64 :: "int \<Rightarrow> bool" where
  "in_int64 v = (- (2 ^ 63) \<le> v \<and> v < 2 ^ 63)"

definition int64_feature :: "int \<Rightarrow> error + feature" where
  "int64_feature v = (if in_int64 v then Inr (Int64List [v]) else Inl ValueError)"

definition int64_list_feature :: "int list \<Rightarrow> error + feature" where
  "int64_list_feature v = (if list_all in_int64 v then Inr (Int64List v) else Inl ValueError)"

definition bytes_feature :: "bytes \<Rightarrow> feature" where
  "bytes_feature v = BytesList [v]"

definition bytes_list_feature :: "bytes list \<Rightarrow> feature" where
  "bytes_list_feature v = BytesList v"

definition float_list_feature :: "real list \<Rightarrow> feature" where
  "float_list_feature v = FloatList v"

type_synonym features = "string \<rightharpoonup> feature"

text \<open>The seven lists that \<^verbatim>\<open>_export_instances\<close> fills, one entry per instance.\<close>

record export_lists =
  xmins :: "real list"
  xmaxs :: "real list"
  ymins :: "real list"
  ymaxs :: "real list"
  classes_text :: "bytes list"
  classes :: "int list"
  masks :: "bytes list"

definition empty_lists :: export_lists where
  "empty_lists =
     \<lparr>xmins = [], xmaxs = [], ymins = [], ymaxs = [], classes_text = [], classes = [],
      masks = []\<rparr>"

text \<open>
  One turn of the loop of \<^verbatim>\<open>_export_instances\<close>. The statements run in the order of
  the source: the label name and its encoding, the label id, the four divisions (a
  division by zero raises \<^verbatim>\<open>ZeroDivisionError\<close>), then the mask.
\<close>

definition export_instance ::
  "'m converter \<Rightarrow> pystr list \<Rightarrow> int \<Rightarrow> int \<Rightarrow> 'm instance_parts \<Rightarrow> export_lists
     \<Rightarrow> error + export_lists" where
  "export_instance self label_categories width height inst acc =
     (case inst of (leader, mask', b0, b1, b2, b3) \<Rightarrow>
        (case get_label label_categories (label leader) of
           Inl e \<Rightarrow> Inl e
         | Inr name \<Rightarrow>
          (case encode_utf8 (make_printable name) of
             Inl e \<Rightarrow> Inl e
           | Inr text \<Rightarrow>
             (case map_label_id label_categories (label leader) of
                Inl e \<Rightarrow> Inl e
              | Inr class_id \<Rightarrow>
                  if width = 0 then Inl ZeroDivisionError
                  else if height = 0 then Inl ZeroDivisionError
                  else Inr (acc
                    \<lparr>classes_text := classes_text acc @ [text],
                     classes := classes acc @ [class_id],
                     xmins := xmins acc @ [b0 / of_int width],
                     xmaxs := xmaxs acc @ [(b0 + b2) / of_int width],
                     ymins := ymins acc @ [b1 / of_int height],
                     ymaxs := ymaxs acc @ [(b1 + b3) / of_int height],
                     masks :=
                       (if save_masks self
                        then masks acc @
                          [case mask' of
                             Some m \<Rightarrow> encode_image self m (lit ''.png'')
                           | None \<Rightarrow> []]
                        else masks acc)\<rparr>)))))"

fun export_instances_loop ::
  "'m converter \<Rightarrow> pystr list \<Rightarrow> int \<Rightarrow> int \<Rightarrow> 'm instance_parts list \<Rightarrow> export_lists
     \<Rightarrow> error + export_lists" where
  "export_instances_loop self label_categories width height [] acc = Inr acc"
| "export_instances_loop self label_categories width height (inst # rest) acc =
     (case export_instance self label_categories width height inst acc of
        Inl e \<Rightarrow> Inl e
      | Inr acc' \<Rightarrow> export_instances_loop self label_categories width height rest acc')"

definition export_instances ::
  "'m converter \<Rightarrow> pystr list \<Rightarrow> 'm instance_parts list \<Rightarrow> int \<Rightarrow> int
     \<Rightarrow> error + features" where
  "export_instances self label_categories instances width height =
     (case export_instances_loop self label_categories width height instances empty_lists of
        Inl e \<Rightarrow> Inl e
      | Inr l \<Rightarrow>
          if classes l \<noteq> [] then
            (case int64_list_feature (classes l) of
               Inl e \<Rightarrow> Inl e
             | Inr class_label \<Rightarrow>
                 Inr (let result = [
                    ''image/object/bbox/xmin'' \<mapsto> float_list_feature (xmins l),
                    ''image/object/bbox/xmax'' \<mapsto> float_list_feature (xmaxs l),
                    ''image/object/bbox/ymin'' \<mapsto> float_list_feature (ymins l),
                    ''image/object/bbox/ymax'' \<mapsto> float_list_feature (ymaxs l),
                    ''image/object/class/text'' \<mapsto> bytes_list_feature (classes_text l),
                    ''image/object/class/label'' \<mapsto> class_label]
                  in if masks l \<noteq> []
                     then result(''image/object/mask'' \<mapsto> bytes_list_feature (masks l))
                     else result))
          else Inr Map.empty)"

subsection \<open>Items and records\<close>

text \<open>
  Modelled from the spec: the dataset item and its image are classes of
  \<^verbatim>\<open>datumaro.components.extractor\<close>, not part of the sources at hand. An item
  exposes an id, a list of annotations and optional image metadata: the pixel size
  \<open>(height, width)\<close> and optional pixel data. \<^verbatim>\<open>item.has_image\<close> is
  \<open>item_image item \<noteq> None\<close>, \<^verbatim>\<open>item.image.has_data\<close> is \<open>image_data img \<noteq> None\<close>.
\<close>

record 'm image =
  image_size :: "int \<times> int"
  image_data :: "'m option"

record 'm dataset_item =
  item_id :: pystr
  annotations :: "'m annotation list"
  item_image :: "'m image option"

text \<open>
  The comprehension \<^verbatim>\<open>[self._find_instance_parts(i, width, height) for i in instances]\<close>;
  the first group that raises ends it.
\<close>

fun instance_parts_list ::
  "'m converter \<Rightarrow> int \<Rightarrow> int \<Rightarrow> 'm annotation list list
     \<Rightarrow> error + 'm instance_parts list" where
  "instance_parts_list self width height [] = Inr []"
| "instance_parts_list self width height (i # instances) =
     (case find_instance_parts self i width height of
        Inl e \<Rightarrow> Inl e
      | Inr parts \<Rightarrow>
          (case instance_parts_list self width height instances of
             Inl e \<Rightarrow> Inl e
           | Inr rest \<Rightarrow> Inr (parts # rest)))"

definition no_image_message :: "pystr \<Rightarrow> pystr" where
  "no_image_message ident =
     lit ''Failed to export dataset item '' @ [39] @ ident @ [39]
       @ lit '': item has no image info''"

text \<open>
  \<^verbatim>\<open>_make_tf_example\<close>, in the order of the source: the id and the file name are
  encoded before the item is asked for its image; the height and the width become
  64-bit integer features. The warning that is logged when images are to be saved and
  the item has no pixel data has no effect on the result and is left out.
\<close>

definition make_tf_example ::
  "'m converter \<Rightarrow> pystr list \<Rightarrow> 'm dataset_item \<Rightarrow> error + features" where
  "make_tf_example self label_categories item =
     (case encode_utf8 (item_id item) of
        Inl e \<Rightarrow> Inl e
      | Inr source_id \<Rightarrow>
     (case encode_utf8 (item_id item @ IMAGE_EXT self) of
        Inl e \<Rightarrow> Inl e
      | Inr filename \<Rightarrow>
     (let features = [
            ''image/source_id'' \<mapsto> bytes_feature source_id,
            ''image/filename'' \<mapsto> bytes_feature filename]
      in case item_image item of
           None \<Rightarrow> Inl (Exception (no_image_message (item_id item)))
         | Some img \<Rightarrow>
             (case image_size img of (height, width) \<Rightarrow>
             (case int64_feature height of
                Inl e \<Rightarrow> Inl e
              | Inr image_height \<Rightarrow>
             (case int64_feature width of
                Inl e \<Rightarrow> Inl e
              | Inr image_width \<Rightarrow>
                (let features1 = features(
                       ''image/height'' \<mapsto> image_height,
                       ''image/width'' \<mapsto> image_width);
                     features2 = features1(
                       ''image/encoded'' \<mapsto> bytes_feature [],
                       ''image/format'' \<mapsto> bytes_feature [])
                 in case (if save_images self then
                            (case image_data img of
                               Some d \<Rightarrow>
                                 (case encode_utf8 (IMAGE_FORMAT self) of
                                    Inl e \<Rightarrow> Inl e
                                  | Inr fmt \<Rightarrow> Inr (features2(
                                      ''image/encoded'' \<mapsto>
                                         bytes_feature (encode_image self d (IMAGE_EXT self)),
                                      ''image/format'' \<mapsto> bytes_feature fmt)))
                             | None \<Rightarrow> Inr features2)
                          else Inr features2) of
                      Inl e \<Rightarrow> Inl e
                    | Inr features3 \<Rightarrow>
                 (case instance_parts_list self width height
                           (find_instances (annotations item)) of
                      Inl e \<Rightarrow> Inl e
                    | Inr instances \<Rightarrow>
                        (case export_instances self label_categories instances width height of
                           Inl e \<Rightarrow> Inl e
                         | Inr r \<Rightarrow> Inr (features3 ++ r))))))))))"

subsection \<open>The run\<close>

text \<open>
  Modelled from the spec: the extractor (the dataset iterator and the source of the label
  catalog) is not part of the sources at hand. It gives the names of the label
  categories, the names of its subsets, the items of a subset and, iterated itself, all
  its items.
\<close>

record 'm extractor =
  label_names :: "pystr list"
  subsets :: "pystr list"
  get_subset :: "pystr \<Rightarrow> 'm dataset_item list"
  all_items :: "'m dataset_item list"

text \<open>
  The files of the output directory: the label map (a text, held as its UTF-8 bytes)
  and one record file per subset. A record is the example that
  \<^verbatim>\<open>SerializeToString\<close> serialises.
\<close>

datatype out_file = TextFile bytes | RecordFile "features list"

type_synonym files = "pystr \<rightharpoonup> out_file"

text \<open>\<^verbatim>\<open>os.path.join\<close> of two components.\<close>

definition path_join :: "pystr \<Rightarrow> pystr \<Rightarrow> pystr" where
  "path_join a b =
     (if b \<noteq> [] \<and> hd b = 47 then b
      else if a = [] \<or> last a = 47 then a @ b
      else a @ [47] @ b)"

text \<open>\<^verbatim>\<open>'%s' % n\<close> for an index \<open>n\<close>: its decimal digits.\<close>

fun str_nat :: "nat \<Rightarrow> pystr" where
  "str_nat n = (if n < 10 then [48 + n] else str_nat (n div 10) @ [48 + n mod 10])"

definition str_int :: "int \<Rightarrow> pystr" where
  "str_int i = (if i < 0 then 45 # str_nat (nat (- i)) else str_nat (nat i))"

definition labelmap_entry :: "pystr \<times> int \<Rightarrow> pystr" where
  "labelmap_entry e =
     (case e of (name, idx) \<Rightarrow>
        lit ''item {'' @ [10]
          @ ([9] @ lit ''id: '' @ str_int idx @ [10])
          @ ([9] @ lit ''name: '' @ [39] @ name @ [39] @ [10])
          @ lit ''}'' @ [10, 10])"

text \<open>
  The loop that writes the label map through \<^verbatim>\<open>codecs.open(..., encoding='utf8')\<close>:
  each \<^verbatim>\<open>f.write\<close> encodes one entry; the bytes written so far, and the exception
  that ended the loop, if any.
\<close>

fun write_labelmap :: "(pystr \<times> int) list \<Rightarrow> bytes \<Rightarrow> bytes \<times> error option" where
  "write_labelmap [] written = (written, None)"
| "write_labelmap (entry # rest) written =
     (case encode_utf8 (labelmap_entry entry) of
        Inl e \<Rightarrow> (written, Some e)
      | Inr encoded \<Rightarrow> write_labelmap rest (written @ encoded))"

text \<open>
  The loop over the items of a subset inside \<^verbatim>\<open>with tf.io.TFRecordWriter(...)\<close>:
  the records written so far, and the exception that ended the loop, if any.
\<close>

fun write_items ::
  "'m converter \<Rightarrow> pystr list \<Rightarrow> 'm dataset_item list \<Rightarrow> features list
     \<Rightarrow> features list \<times> error option" where
  "write_items self label_categories [] written = (written, None)"
| "write_items self label_categories (item # rest) written =
     (case make_tf_example self label_categories item of
        Inl e \<Rightarrow> (written, Some e)
      | Inr tf_example \<Rightarrow>
          write_items self label_categories rest (written @ [tf_example]))"

text \<open>
  The loop of \<^verbatim>\<open>__call__\<close> over the subsets: for each one the label map is written,
  then the record file is opened and filled. An exception leaves the files as they are
  at that moment and ends the run.
\<close>

fun convert_subsets ::
  "'m converter \<Rightarrow> 'm extractor \<Rightarrow> pystr \<Rightarrow> pystr option list \<Rightarrow> files
     \<Rightarrow> files \<times> error option" where
  "convert_subsets self ex save_dir [] fs = (fs, None)"
| "convert_subsets self ex save_dir (subset_name # rest) fs =
     (let named = (subset_name \<noteq> None \<and> subset_name \<noteq> Some []);
          name = (if named then the subset_name else DEFAULT_SUBSET_NAME self);
          subset = (if named then get_subset ex (the subset_name) else all_items ex);
          labelmap_path = path_join save_dir (LABELMAP_FILE self);
          anno_path = path_join save_dir (name @ lit ''.tfrecord'')
      in case write_labelmap (label_ids (label_names ex)) [] of
           (text, Some e) \<Rightarrow> (fs(labelmap_path \<mapsto> TextFile text), Some e)
         | (text, None) \<Rightarrow>
             (let fs1 = fs(labelmap_path \<mapsto> TextFile text)
              in case write_items self (label_names ex) subset [] of
                   (written, Some e) \<Rightarrow> (fs1(anno_path \<mapsto> RecordFile written), Some e)
                 | (written, None) \<Rightarrow>
                     convert_subsets self ex save_dir rest
                       (fs1(anno_path \<mapsto> RecordFile written))))"

definition call ::
  "'m converter \<Rightarrow> 'm extractor \<Rightarrow> pystr \<Rightarrow> files \<Rightarrow> files \<times> error option" where
  "call self ex save_dir fs =
     convert_subsets self ex save_dir
       (if subsets ex = [] then [None] else map Some (subsets ex)) fs"

subsection \<open>Annotations for the examples\<close>

text \<open>
  A box annotation as the class \<^verbatim>\<open>Bbox\<close> builds it (its area is width times height)
  and a mask annotation with a given area and bounding rectangle; the raster type is
  \<open>unit\<close>.
\<close>

definition bbox_ann ::
  "int option \<Rightarrow> int option \<Rightarrow> real \<times> real \<times> real \<times> real \<Rightarrow> unit annotation" where
  "bbox_ann g l b =
     \<lparr>type = T_bbox, group = g, label = l,
      get_area = (case b of (x, y, w, h) \<Rightarrow> w * h), get_bbox = b, mask_image = ()\<rparr>"

definition mask_ann ::
  "int option \<Rightarrow> int option \<Rightarrow> real \<Rightarrow> real \<times> real \<times> real \<times> real
     \<Rightarrow> unit annotation" where
  "mask_ann g l area b =
     \<lparr>type = T_mask, group = g, label = l, get_area = area, get_bbox = b,
      mask_image = ()\<rparr>"

text \<open>
  A converter for the examples: the first mask stands for the merged mask, every image
  encodes to one byte.
\<close>

definition example_converter :: "bool \<Rightarrow> unit converter" where
  "example_converter with_masks =
     \<lparr>save_images = False, save_masks = with_masks,
      merge_masks = (\<lambda>ms. case ms of [] \<Rightarrow> None | m # rest \<Rightarrow> Some m),
      encode_image = (\<lambda>m ext. [1]),
      LABELMAP_FILE = lit ''label_map.pbtxt'', IMAGE_EXT = lit ''.jpg'',
      IMAGE_FORMAT = lit ''jpeg'', DEFAULT_SUBSET_NAME = lit ''default''\<rparr>"

text \<open>
  What one run of \<open>groupby\<close> adds to \<open>ann_groups\<close> in \<^verbatim>\<open>_find_instances\<close>
  (used in the proofs only).
\<close>

definition expand_run :: "int option \<times> 'm annotation list \<Rightarrow> 'm annotation list list" where
  "expand_run r = (if falsy (fst r) then map (\<lambda>a. [a]) (snd r) else [snd r])"

subsection \<open>The spec's words, for comparison with the code\<close>

text \<open>
  The leader as the spec words it: the first annotation, in the order of the list, whose
  area is maximal.
\<close>

definition spec_leader :: "'m annotation list \<Rightarrow> 'm annotation option" where
  "spec_leader grp = find (\<lambda>a. \<forall>b\<in>set grp. get_area b \<le> get_area a) grp"

text \<open>
  The union bounding box as the spec words it: the minimum of the left edges, the minimum
  of the top edges, the maximum of left plus width and the maximum of top plus height
  over the members, each 0 over no members.
\<close>

definition bbox_left :: "'m annotation \<Rightarrow> real" where
  "bbox_left a = (case get_bbox a of (x, y, w, h) \<Rightarrow> x)"

definition bbox_top :: "'m annotation \<Rightarrow> real" where
  "bbox_top a = (case get_bbox a of (x, y, w, h) \<Rightarrow> y)"

definition bbox_right :: "'m annotation \<Rightarrow> real" where
  "bbox_right a = (case get_bbox a of (x, y, w, h) \<Rightarrow> x + w)"

definition bbox_bottom :: "'m annotation \<Rightarrow> real" where
  "bbox_bottom a = (case get_bbox a of (x, y, w, h) \<Rightarrow> y + h)"

definition spec_union_bbox :: "'m annotation list \<Rightarrow> real \<times> real \<times> real \<times> real" where
  "spec_union_bbox members =
     (let x0 = (if members = [] then 0 else Min (bbox_left ` set members));
          y0 = (if members = [] then 0 else Min (bbox_top ` set members));
          x1 = (if members = [] then 0 else Max (bbox_right ` set members));
          y1 = (if members = [] then 0 else Max (bbox_bottom ` set members))
      in (x0, y0, x1 - x0, y1 - y0))"

subsection \<open>The entries of one instance\<close>

text \<open>
  What one turn of the loop of \<^verbatim>\<open>_export_instances\<close> appends for an instance
  \<open>(leader, mask, box)\<close> when it does not raise: the class text, the class id, the
  mask bytes and the four normalised coordinates. \<open>append_row\<close> is the state of the
  seven lists after the turns for a list of instances.
\<close>

definition class_text :: "pystr list \<Rightarrow> 'm instance_parts \<Rightarrow> bytes" where
  "class_text label_categories inst =
     (case get_label label_categories (label (fst inst)) of
        Inr name \<Rightarrow>
          (case encode_utf8 (make_printable name) of Inr text \<Rightarrow> text | Inl e \<Rightarrow> [])
      | Inl e \<Rightarrow> [])"

definition class_label :: "pystr list \<Rightarrow> 'm instance_parts \<Rightarrow> int" where
  "class_label label_categories inst =
     (case map_label_id label_categories (label (fst inst)) of
        Inr class_id \<Rightarrow> class_id
      | Inl e \<Rightarrow> 0)"

definition mask_bytes :: "'m converter \<Rightarrow> 'm instance_parts \<Rightarrow> bytes" where
  "mask_bytes self inst =
     (case fst (snd inst) of
        Some m \<Rightarrow> encode_image self m (lit ''.png'')
      | None \<Rightarrow> [])"

definition inst_xmin :: "int \<Rightarrow> 'm instance_parts \<Rightarrow> real" where
  "inst_xmin width inst = (case snd (snd inst) of (b0, b1, b2, b3) \<Rightarrow> b0 / of_int width)"

definition inst_xmax :: "int \<Rightarrow> 'm instance_parts \<Rightarrow> real" where
  "inst_xmax width inst = (case snd (snd inst) of (b0, b1, b2, b3) \<Rightarrow> (b0 + b2) / of_int width)"

definition inst_ymin :: "int \<Rightarrow> 'm instance_parts \<Rightarrow> real" where
  "inst_ymin height inst = (case snd (snd inst) of (b0, b1, b2, b3) \<Rightarrow> b1 / of_int height)"

definition inst_ymax :: "int \<Rightarrow> 'm instance_parts \<Rightarrow> real" where
  "inst_ymax height inst = (case snd (snd inst) of (b0, b1, b2, b3) \<Rightarrow> (b1 + b3) / of_int height)"

definition append_row ::
  "'m converter \<Rightarrow> pystr list \<Rightarrow> int \<Rightarrow> int \<Rightarrow> export_lists \<Rightarrow> 'm instance_parts list
     \<Rightarrow> export_lists" where
  "append_row self cats w h acc insts =
     \<lparr>xmins = xmins acc @ map (inst_xmin w) insts,
      xmaxs = xmaxs acc @ map (inst_xmax w) insts,
      ymins = ymins acc @ map (inst_ymin h) insts,
      ymaxs = ymaxs acc @ map (inst_ymax h) insts,
      classes_text = classes_text acc @ map (class_text cats) insts,
      classes = classes acc @ map (class_label cats) insts,
      masks = masks acc @ (if save_masks self then map (mask_bytes self) insts else [])\<rparr>"

subsection \<open>Auxiliary notions for the properties of an item\<close>

text \<open>
  A label reference that \<^verbatim>\<open>get_label\<close> can resolve: no label, or an index that Python
  accepts for the catalog (from minus its length up to its length, exclusive).
\<close>

definition valid_label :: "pystr list \<Rightarrow> int option \<Rightarrow> bool" where
  "valid_label label_categories label_id =
     (case label_id of
        None \<Rightarrow> True
      | Some i \<Rightarrow> - int (length label_categories) \<le> i \<and> i < int (length label_categories))"

text \<open>
  A pixel box that lies within an image of the given width and height: its left edge,
  top edge, width and height are not negative, and it ends within the image.
\<close>


definition within_image :: "int \<Rightarrow> int \<Rightarrow> real \<times> real \<times> real \<times> real \<Rightarrow> bool" where
  "within_image width height b =
     (case b of (x, y, w, h) \<Rightarrow>
        0 \<le> x \<and> 0 \<le> y \<and> 0 \<le> w \<and> 0 \<le> h
        \<and> x + w \<le> of_int width \<and> y + h \<le> of_int height)"

text \<open>An item for the examples, with id \<^verbatim>\<open>1\<close>, an image size and no pixel data.\<close>

definition example_item :: "unit annotation list \<Rightarrow> int \<times> int \<Rightarrow> unit dataset_item" where
  "example_item anns hw =
     \<lparr>item_id = lit ''1'', annotations = anns,
      item_image = Some \<lparr>image_size = hw, image_data = None\<rparr>\<rparr>"

text \<open>The feature stored under a key by a conversion that returned.\<close>

definition emitted :: "error + features \<Rightarrow> string \<Rightarrow> feature option" where
  "emitted res key = (case res of Inr ex \<Rightarrow> ex key | Inl e \<Rightarrow> None)"

text \<open>
  The image-level part of \<^verbatim>\<open>_make_tf_example\<close> for an item with an image: the
  dictionary \<open>features\<close> just before the instance features are added, or the exception
  raised on the way.
\<close>

definition image_features ::
  "'m converter \<Rightarrow> 'm dataset_item \<Rightarrow> 'm image \<Rightarrow> error + features" where
  "image_features self item img =
     (case encode_utf8 (item_id item) of
        Inl e \<Rightarrow> Inl e
      | Inr source_id \<Rightarrow>
     (case encode_utf8 (item_id item @ IMAGE_EXT self) of
        Inl e \<Rightarrow> Inl e
      | Inr filename \<Rightarrow>
     (case image_size img of (height, width) \<Rightarrow>
     (case int64_feature height of
        Inl e \<Rightarrow> Inl e
      | Inr image_height \<Rightarrow>
     (case int64_feature width of
        Inl e \<Rightarrow> Inl e
      | Inr image_width \<Rightarrow>
        (let features2 = [
               ''image/source_id'' \<mapsto> bytes_feature source_id,
               ''image/filename'' \<mapsto> bytes_feature filename,
               ''image/height'' \<mapsto> image_height,
               ''image/width'' \<mapsto> image_width,
               ''image/encoded'' \<mapsto> bytes_feature [],
               ''image/format'' \<mapsto> bytes_feature []]
         in if save_images self then
              (case image_data img of
                 Some d \<Rightarrow>
                   (case encode_utf8 (IMAGE_FORMAT self) of
                      Inl e \<Rightarrow> Inl e
                    | Inr fmt \<Rightarrow> Inr (features2(
                        ''image/encoded'' \<mapsto>
                           bytes_feature (encode_image self d (IMAGE_EXT self)),
                        ''image/format'' \<mapsto> bytes_feature fmt)))
               | None \<Rightarrow> Inr features2)
            else Inr features2))))))"

text \<open>A string that \<^verbatim>\<open>encode('utf-8')\<close> accepts: it has no lone surrogate.\<close>

definition encodable :: "pystr \<Rightarrow> bool" where
  "encodable s = (\<not> list_ex surrogate s)"

text \<open>
  The printable ASCII characters in the usual sense, from the space to the tilde, for
  comparison with \<^verbatim>\<open>string.printable\<close>.
\<close>

definition printable_ascii :: "nat \<Rightarrow> bool" where
  "printable_ascii c = (32 \<le> c \<and> c \<le> 126)"

subsection \<open>Auxiliary notions for the properties of a run\<close>

text \<open>
  The name and the items that the loop of \<^verbatim>\<open>__call__\<close> works with for an entry of
  the list of subsets, and the files after the label map is written.
\<close>

definition chosen_name :: "'m converter \<Rightarrow> pystr option \<Rightarrow> pystr" where
  "chosen_name self subset_name =
     (if subset_name \<noteq> None \<and> subset_name \<noteq> Some [] then the subset_name
      else DEFAULT_SUBSET_NAME self)"

definition chosen_subset :: "'m extractor \<Rightarrow> pystr option \<Rightarrow> 'm dataset_item list" where
  "chosen_subset ex subset_name =
     (if subset_name \<noteq> None \<and> subset_name \<noteq> Some [] then get_subset ex (the subset_name)
      else all_items ex)"

definition labelmap_written :: "'m converter \<Rightarrow> 'm extractor \<Rightarrow> pystr \<Rightarrow> files \<Rightarrow> files" where
  "labelmap_written self ex save_dir fs =
     fs(path_join save_dir (LABELMAP_FILE self) \<mapsto>
          TextFile (fst (write_labelmap (label_ids (label_names ex)) [])))"

text \<open>
  The exception that \<^verbatim>\<open>_make_tf_example\<close> raises for an item without image: the
  one that names the item, unless the encoding of the id or of the file name has failed
  before.
\<close>

definition missing_image_error :: "'m converter \<Rightarrow> 'm dataset_item \<Rightarrow> error" where
  "missing_image_error self item =
     (if encodable (item_id item) \<and> encodable (IMAGE_EXT self)
      then Exception (no_image_message (item_id item)) else UnicodeEncodeError)"

text \<open>An item with id \<^verbatim>\<open>7\<close> that carries no image, and an extractor for the examples.\<close>

definition item_without_image :: "unit dataset_item" where
  "item_without_image = \<lparr>item_id = lit ''7'', annotations = [], item_image = None\<rparr>"

definition example_extractor :: "unit extractor" where
  "example_extractor =
     \<lparr>label_names = [[99, 97, 116]],
      subsets = [lit ''train''],
      get_subset = (\<lambda>name.
        if name = lit ''train''
        then [example_item [bbox_ann None (Some 0) (0, 0, 10, 10)] (50, 100),
              item_without_image,
              example_item [] (50, 100)]
        else []),
      all_items =
        [example_item [bbox_ann None (Some 0) (0, 0, 10, 10)] (50, 100),
         item_without_image,
         example_item [] (50, 100)]\<rparr>"

section \<open>Properties of the instance grouper\<close>

declare groupby.simps [simp del]
declare str_nat.simps [simp del]

lemma takeWhile_keys: "a \<in> set (takeWhile (\<lambda>y. key y = k) xs) \<Longrightarrow> key a = k"
  by (induction xs) (simp_all split: if_splits, blast)

lemma concat_groupby: "concat (map snd (groupby key xs)) = xs"
  by (induction key xs rule: groupby.induct) (simp_all add: groupby.simps)

lemma find_instances_loop_append:
  "find_instances_loop runs acc = acc @ concat (map expand_run runs)"
proof (induction runs arbitrary: acc)
  case Nil
  show ?case by simp
next
  case (Cons r runs)
  obtain g_id grp where r: "r = (g_id, grp)" by (cases r)
  show ?case
    by (cases "falsy g_id") (simp_all add: r Cons.IH expand_run_def)
qed

lemma find_instances_expand:
  "find_instances anns = concat (map expand_run (groupby group (find_instance_anns anns)))"
  by (simp add: find_instances_def find_instances_loop_append)

lemma concat_singletons: "concat (map (\<lambda>a. [a]) xs) = xs"
  by (induction xs) simp_all

lemma concat_expand_run: "concat (expand_run r) = snd r"
  by (simp add: expand_run_def concat_singletons)

lemma concat_concat_expand: "concat (concat (map expand_run runs)) = concat (map snd runs)"
  by (induction runs) (simp_all add: concat_expand_run)

lemma concat_find_instances: "concat (find_instances anns) = find_instance_anns anns"
  by (simp add: find_instances_expand concat_concat_expand concat_groupby)

lemma filter_expand_run:
  assumes "\<forall>a\<in>set (x # g). group a = k"
  shows "filter (\<lambda>g. \<exists>a\<in>set g. falsy (group a)) (expand_run (k, x # g))
           = map (\<lambda>a. [a]) (filter (\<lambda>a. falsy (group a)) (x # g))"
proof (cases "falsy k")
  case True
  then have "\<forall>a\<in>set g. falsy (group a)" using assms by simp
  then have "filter (\<lambda>a. falsy (group a)) g = g"
    and "filter (\<lambda>g. \<exists>a\<in>set g. falsy (group a)) (map (\<lambda>a. [a]) g) = map (\<lambda>a. [a]) g"
    by (simp_all add: filter_id_conv)
  then show ?thesis using True assms by (simp add: expand_run_def)
next
  case False
  then have "\<forall>a\<in>set g. \<not> falsy (group a)" using assms by simp
  then have "filter (\<lambda>a. falsy (group a)) g = []"
    by (simp add: filter_empty_conv)
  then show ?thesis using False assms by (simp add: expand_run_def)
qed

lemma filter_runs:
  "filter (\<lambda>g. \<exists>a\<in>set g. falsy (group a)) (concat (map expand_run (groupby group xs)))
     = map (\<lambda>a. [a]) (filter (\<lambda>a. falsy (group a)) xs)"
proof (induction "group :: 'a annotation \<Rightarrow> int option" xs rule: groupby.induct)
  case 1
  show ?case by (simp add: groupby.simps)
next
  case (2 x xs)
  let ?P = "\<lambda>y. group y = group x"
  let ?F = "\<lambda>a. falsy (group a)"
  let ?G = "\<lambda>g. \<exists>a\<in>set g. falsy (group a)"
  have keys: "\<forall>a\<in>set (x # takeWhile ?P xs). group a = group x"
  proof
    fix a assume "a \<in> set (x # takeWhile ?P xs)"
    then have "a = x \<or> a \<in> set (takeWhile ?P xs)" by simp
    then show "group a = group x"
      using takeWhile_keys [of a group "group x" xs] by blast
  qed
  have "filter ?F (x # xs) = filter ?F ((x # takeWhile ?P xs) @ dropWhile ?P xs)"
    by (simp only: append_Cons takeWhile_dropWhile_id)
  also have "\<dots> = filter ?F (x # takeWhile ?P xs) @ filter ?F (dropWhile ?P xs)"
    by (simp only: filter_append)
  finally have split: "map (\<lambda>a. [a]) (filter ?F (x # xs)) =
      map (\<lambda>a. [a]) (filter ?F (x # takeWhile ?P xs))
        @ map (\<lambda>a. [a]) (filter ?F (dropWhile ?P xs))"
    by (simp only: map_append)
  have "filter ?G (concat (map expand_run (groupby group (x # xs))))
      = filter ?G (expand_run (group x, x # takeWhile ?P xs))
        @ filter ?G (concat (map expand_run (groupby group (dropWhile ?P xs))))"
    by (simp only: groupby.simps list.map concat.simps filter_append)
  also have "\<dots> = map (\<lambda>a. [a]) (filter ?F (x # takeWhile ?P xs))
        @ map (\<lambda>a. [a]) (filter ?F (dropWhile ?P xs))"
    by (simp only: filter_expand_run [OF keys] 2)
  finally show ?case
    by (simp only: split)
qed

text \<open>
  C4. Every annotation of kind bbox or mask lies in exactly one group (the groups,
  concatenated, are the bbox and mask annotations in their order), and the groups that
  hold an annotation with a falsy group id (\<^verbatim>\<open>None\<close> or \<open>0\<close>) are exactly the
  singleton lists of those annotations, one per annotation, in their order: a group with
  an ungrouped annotation holds nothing else, so two ungrouped annotations are never
  merged.
\<close>

theorem ungrouped_annotations_are_singletons:
  "concat (find_instances anns) = find_instance_anns anns
   \<and> filter (\<lambda>g. \<exists>a\<in>set g. falsy (group a)) (find_instances anns)
       = map (\<lambda>a. [a]) (filter (\<lambda>a. falsy (group a)) (find_instance_anns anns))
   \<and> (\<forall>g\<in>set (find_instances anns). \<forall>a\<in>set g. falsy (group a) \<longrightarrow> g = [a])"
proof (intro conjI)
  show "concat (find_instances anns) = find_instance_anns anns"
    by (rule concat_find_instances)
  show eq: "filter (\<lambda>g. \<exists>a\<in>set g. falsy (group a)) (find_instances anns)
     = map (\<lambda>a. [a]) (filter (\<lambda>a. falsy (group a)) (find_instance_anns anns))"
    by (simp only: find_instances_expand filter_runs)
  show "\<forall>g\<in>set (find_instances anns). \<forall>a\<in>set g. falsy (group a) \<longrightarrow> g = [a]"
  proof (intro ballI impI)
    fix g a
    assume g: "g \<in> set (find_instances anns)" and a: "a \<in> set g" and f: "falsy (group a)"
    then have "g \<in> set (filter (\<lambda>g. \<exists>a\<in>set g. falsy (group a)) (find_instances anns))"
      by auto
    then have "g \<in> set (map (\<lambda>a. [a]) (filter (\<lambda>a. falsy (group a)) (find_instance_anns anns)))"
      by (simp only: eq)
    then obtain b where "g = [b]" by auto
    with a show "g = [a]" by simp
  qed
qed

theorem ungrouped_annotations_are_singletons_witness:
  "find_instances
       [bbox_ann None None (0, 0, 10, 10), bbox_ann (Some 5) None (1, 1, 2, 2),
        mask_ann (Some 5) None 3 (1, 1, 2, 2), bbox_ann (Some 0) None (20, 20, 30, 10)]
     = [[bbox_ann None None (0, 0, 10, 10)],
        [bbox_ann (Some 5) None (1, 1, 2, 2), mask_ann (Some 5) None 3 (1, 1, 2, 2)],
        [bbox_ann (Some 0) None (20, 20, 30, 10)]]
   \<and> falsy (group (bbox_ann None None (0, 0, 10, 10)))
   \<and> falsy (group (bbox_ann (Some 0) None (20, 20, 30, 10)))
   \<and> filter (\<lambda>g. \<exists>a\<in>set g. falsy (group a))
     (find_instances
       [bbox_ann None None (0, 0, 10, 10), bbox_ann (Some 5) None (1, 1, 2, 2),
        mask_ann (Some 5) None 3 (1, 1, 2, 2), bbox_ann (Some 0) None (20, 20, 30, 10)])
   = [[bbox_ann None None (0, 0, 10, 10)], [bbox_ann (Some 0) None (20, 20, 30, 10)]]"
proof (intro conjI)
  show "find_instances
       [bbox_ann None None (0, 0, 10, 10), bbox_ann (Some 5) None (1, 1, 2, 2),
        mask_ann (Some 5) None 3 (1, 1, 2, 2), bbox_ann (Some 0) None (20, 20, 30, 10)]
     = [[bbox_ann None None (0, 0, 10, 10)],
        [bbox_ann (Some 5) None (1, 1, 2, 2), mask_ann (Some 5) None 3 (1, 1, 2, 2)],
        [bbox_ann (Some 0) None (20, 20, 30, 10)]]"
    by (simp add: find_instances_def find_instance_anns_def bbox_ann_def mask_ann_def
          falsy_def groupby.simps)
  show "falsy (group (bbox_ann None None (0, 0, 10, 10)))"
    by (simp add: bbox_ann_def falsy_def)
  show "falsy (group (bbox_ann (Some 0) None (20, 20, 30, 10)))"
    by (simp add: bbox_ann_def falsy_def)
  show "filter (\<lambda>g. \<exists>a\<in>set g. falsy (group a))
     (find_instances
       [bbox_ann None None (0, 0, 10, 10), bbox_ann (Some 5) None (1, 1, 2, 2),
        mask_ann (Some 5) None 3 (1, 1, 2, 2), bbox_ann (Some 0) None (20, 20, 30, 10)])
   = [[bbox_ann None None (0, 0, 10, 10)], [bbox_ann (Some 0) None (20, 20, 30, 10)]]"
    unfolding ungrouped_annotations_are_singletons [THEN conjunct2, THEN conjunct1]
    by (simp add: find_instance_anns_def bbox_ann_def mask_ann_def falsy_def)
qed

text \<open>
  C1. An input in which the annotations of group 1 are not contiguous: a box of group 1,
  a box of group 2, a second box of group 1. \<^verbatim>\<open>_find_instances\<close> returns three
  groups, two of them for the single group id 1, where the claim requires one group per
  distinct group id (two groups).
\<close>

theorem find_instances_splits_noncontiguous_group:
  "find_instances
     [bbox_ann (Some 1) None (0, 0, 1, 1), bbox_ann (Some 2) None (2, 2, 1, 1),
      bbox_ann (Some 1) None (4, 4, 1, 1)]
   = [[bbox_ann (Some 1) None (0, 0, 1, 1)], [bbox_ann (Some 2) None (2, 2, 1, 1)],
      [bbox_ann (Some 1) None (4, 4, 1, 1)]]"
  by (simp add: find_instances_def find_instance_anns_def bbox_ann_def falsy_def
        groupby.simps)

section \<open>Leader and bounding box of an instance\<close>

lemma max_key_in: "max_key key b rest \<in> set (b # rest)"
  by (induction rest arbitrary: b) (simp, force)

lemma max_key_ge: "x \<in> set (b # rest) \<Longrightarrow> key x \<le> key (max_key key b rest)"
proof (induction rest arbitrary: b x)
  case Nil
  then show ?case by simp
next
  case (Cons y rest)
  let ?b' = "if key b < key y then y else b"
  have step: "max_key key b (y # rest) = max_key key ?b' rest" by simp
  have b': "key b \<le> key ?b'" "key y \<le> key ?b'" by simp_all
  have top: "key ?b' \<le> key (max_key key ?b' rest)"
    by (rule Cons.IH) simp
  from Cons.prems have "x = b \<or> x = y \<or> x \<in> set rest" by simp
  then show ?case
  proof (elim disjE)
    assume "x = b" then show ?thesis using b'(1) top unfolding step by simp
  next
    assume "x = y" then show ?thesis using b'(2) top unfolding step by simp
  next
    assume "x \<in> set rest"
    then have "x \<in> set (?b' # rest)" by simp
    then show ?thesis unfolding step by (rule Cons.IH)
  qed
qed

lemma find_first_reaching:
  "\<forall>x\<in>set (b # rest). key x \<le> c \<Longrightarrow>
   find (\<lambda>a. c \<le> key a) (b # rest) =
     (if c \<le> key (max_key key b rest) then Some (max_key key b rest) else None)"
proof (induction rest arbitrary: b)
  case Nil
  then show ?case by simp
next
  case (Cons y rest)
  have kb: "key b \<le> c" and ky: "key y \<le> c" and kr: "\<forall>x\<in>set rest. key x \<le> c"
    using Cons.prems by simp_all
  show ?case
  proof (cases "key b < key y")
    case True
    then have step: "max_key key b (y # rest) = max_key key y rest" by simp
    have "\<forall>x\<in>set (y # rest). key x \<le> c" using ky kr by simp
    then have IH: "find (\<lambda>a. c \<le> key a) (y # rest) =
        (if c \<le> key (max_key key y rest) then Some (max_key key y rest) else None)"
      by (rule Cons.IH)
    have "\<not> c \<le> key b" using True ky by simp
    then have "find (\<lambda>a. c \<le> key a) (b # y # rest) = find (\<lambda>a. c \<le> key a) (y # rest)"
      by simp
    then show ?thesis by (simp only: IH step)
  next
    case False
    then have step: "max_key key b (y # rest) = max_key key b rest" by simp
    have "\<forall>x\<in>set (b # rest). key x \<le> c" using kb kr by simp
    then have IH: "find (\<lambda>a. c \<le> key a) (b # rest) =
        (if c \<le> key (max_key key b rest) then Some (max_key key b rest) else None)"
      by (rule Cons.IH)
    have "find (\<lambda>a. c \<le> key a) (b # y # rest) = find (\<lambda>a. c \<le> key a) (b # rest)"
    proof (cases "c \<le> key b")
      case True
      then show ?thesis by simp
    next
      case nb: False
      then have "\<not> c \<le> key y" using False by simp
      then show ?thesis using nb by simp
    qed
    then show ?thesis by (simp only: IH step)
  qed
qed

lemma find_group_leader_spec:
  "find_group_leader grp = (case spec_leader grp of None \<Rightarrow> Inl ValueError | Some a \<Rightarrow> Inr a)"
proof (cases grp)
  case Nil
  then show ?thesis by (simp add: find_group_leader_def spec_leader_def)
next
  case (Cons b rest)
  let ?m = "max_key get_area b rest"
  have ge: "\<forall>x\<in>set (b # rest). get_area x \<le> get_area ?m"
    using max_key_ge [of _ b rest get_area] by blast
  have "find (\<lambda>a. \<forall>x\<in>set (b # rest). get_area x \<le> get_area a) (b # rest)
      = find (\<lambda>a. get_area ?m \<le> get_area a) (b # rest)"
  proof (rule find_cong [OF refl])
    fix a assume "a \<in> set (b # rest)"
    show "(\<forall>x\<in>set (b # rest). get_area x \<le> get_area a) = (get_area ?m \<le> get_area a)"
      using ge max_key_in [of get_area b rest] by (meson order_trans)
  qed
  also have "\<dots> = Some ?m"
    using find_first_reaching [OF ge] by simp
  finally show ?thesis
    using Cons by (simp add: find_group_leader_def spec_leader_def)
qed


lemma find_instance_parts_leader:
  "find_instance_parts self grp w h = Inr (leader, m, b) \<Longrightarrow>
     find_group_leader (filter (\<lambda>a. type a = T_bbox) grp @ filter (\<lambda>a. type a = T_mask) grp)
       = Inr leader"
  by (simp add: find_instance_parts_def Let_def split: sum.splits)

lemma find_instance_parts_total:
  assumes "\<exists>a\<in>set grp. type a \<in> {T_bbox, T_mask}"
  shows "\<exists>r. find_instance_parts self grp w h = Inr r"
proof -
  have "filter (\<lambda>a. type a = T_bbox) grp @ filter (\<lambda>a. type a = T_mask) grp \<noteq> []"
    using assms by (auto simp: filter_empty_conv)
  then obtain a rest where
    "filter (\<lambda>a. type a = T_bbox) grp @ filter (\<lambda>a. type a = T_mask) grp = a # rest"
    by (cases "filter (\<lambda>a. type a = T_bbox) grp @ filter (\<lambda>a. type a = T_mask) grp") auto
  then have "find_instance_parts self grp w h =
      Inr (max_key get_area a rest,
           (if save_masks self
            then merge_masks self (map mask_image (filter (\<lambda>a. type a = T_mask) grp))
            else None),
           compute_bbox (a # rest))"
    by (simp add: find_instance_parts_def Let_def find_group_leader_def)
  then show ?thesis by blast
qed

text \<open>
  C2 (amended). \<^verbatim>\<open>find_group_leader\<close> returns the first annotation of maximal area
  in the order of the list it is given, and raises \<^verbatim>\<open>ValueError\<close> on the empty list.
  \<^verbatim>\<open>_find_instance_parts\<close> gives it the bbox annotations of the group followed by the
  mask annotations of the group, so the leader of an instance is the first annotation of
  maximal area in that order (boxes first, then masks), not in the order of the group. A
  group with a bbox or mask annotation always has an instance.
\<close>

theorem leader_is_first_max_of_boxes_then_masks:
  "find_group_leader anns =
     (case spec_leader anns of None \<Rightarrow> Inl ValueError | Some a \<Rightarrow> Inr a)
   \<and> (find_instance_parts self grp w h = Inr (leader, m, b) \<longrightarrow>
        spec_leader (filter (\<lambda>a. type a = T_bbox) grp @ filter (\<lambda>a. type a = T_mask) grp)
          = Some leader)
   \<and> ((\<exists>a\<in>set grp. type a \<in> {T_bbox, T_mask}) \<longrightarrow>
        (\<exists>r. find_instance_parts self grp w h = Inr r))"
proof (intro conjI impI)
  show "find_group_leader anns =
     (case spec_leader anns of None \<Rightarrow> Inl ValueError | Some a \<Rightarrow> Inr a)"
    by (rule find_group_leader_spec)
next
  assume "find_instance_parts self grp w h = Inr (leader, m, b)"
  then have "find_group_leader
      (filter (\<lambda>a. type a = T_bbox) grp @ filter (\<lambda>a. type a = T_mask) grp) = Inr leader"
    by (rule find_instance_parts_leader)
  then show "spec_leader (filter (\<lambda>a. type a = T_bbox) grp @ filter (\<lambda>a. type a = T_mask) grp)
          = Some leader"
    by (simp add: find_group_leader_spec split: option.splits)
next
  assume "\<exists>a\<in>set grp. type a \<in> {T_bbox, T_mask}"
  then show "\<exists>r. find_instance_parts self grp w h = Inr r"
    by (rule find_instance_parts_total)
qed


lemma py_min_Min: "py_min values d = (if values = [] then d else Min (set values))"
proof (cases "values")
  case Nil
  then show ?thesis by (simp add: py_min_def)
next
  case (Cons v rest)
  have "(\<lambda>item best. if item < best then item else best) = (min :: real \<Rightarrow> real \<Rightarrow> real)"
    by (intro ext) (simp add: min_def)
  then show ?thesis
    using Cons by (simp add: py_min_def Min.set_eq_fold del: set_simps)
qed

lemma py_max_Max: "py_max values d = (if values = [] then d else Max (set values))"
proof (cases "values")
  case Nil
  then show ?thesis by (simp add: py_max_def)
next
  case (Cons v rest)
  have "(\<lambda>item best. if best < item then item else best) = (max :: real \<Rightarrow> real \<Rightarrow> real)"
    by (intro ext) (simp add: max_def)
  then show ?thesis
    using Cons by (simp add: py_max_def Max.set_eq_fold del: set_simps)
qed

lemma bbox_edges:
  "(\<lambda>a. case get_bbox a of (b0, b1, b2, b3) \<Rightarrow> b0) = bbox_left"
  "(\<lambda>a. case get_bbox a of (b0, b1, b2, b3) \<Rightarrow> b1) = bbox_top"
  "(\<lambda>a. case get_bbox a of (b0, b1, b2, b3) \<Rightarrow> b0 + b2) = bbox_right"
  "(\<lambda>a. case get_bbox a of (b0, b1, b2, b3) \<Rightarrow> b1 + b3) = bbox_bottom"
  by (simp_all add: bbox_left_def bbox_top_def bbox_right_def bbox_bottom_def fun_eq_iff)

lemma compute_bbox_spec: "compute_bbox anns = spec_union_bbox anns"
  by (simp add: compute_bbox_def spec_union_bbox_def Let_def py_min_Min py_max_Max
        comp_def bbox_edges)

lemma spec_union_bbox_cong:
  "set xs = set ys \<Longrightarrow> spec_union_bbox xs = spec_union_bbox ys"
proof -
  assume eq: "set xs = set ys"
  then have "(xs = []) = (ys = [])" by (metis set_empty)
  then show ?thesis by (simp add: spec_union_bbox_def eq)
qed

lemma find_instance_parts_bbox:
  "find_instance_parts self grp w h = Inr (leader, m, b) \<Longrightarrow>
     b = compute_bbox (filter (\<lambda>a. type a = T_bbox) grp @ filter (\<lambda>a. type a = T_mask) grp)"
  by (auto simp add: find_instance_parts_def Let_def split: sum.splits)

text \<open>
  C9. \<^verbatim>\<open>_compute_bbox\<close> is the union bounding box of the spec, and the bounding box of
  an instance is the union over the bbox and mask annotations of its group: minimum left
  edge, minimum top edge, maximum of left plus width, maximum of top plus height, each 0
  over an empty collection.
\<close>

theorem bbox_is_union_of_member_rectangles:
  "compute_bbox anns = spec_union_bbox anns
   \<and> (find_instance_parts self grp w h = Inr (leader, m, b) \<longrightarrow>
        b = spec_union_bbox (filter (\<lambda>a. type a \<in> {T_bbox, T_mask}) grp))"
proof (intro conjI impI)
  show "compute_bbox anns = spec_union_bbox anns" by (rule compute_bbox_spec)
next
  assume "find_instance_parts self grp w h = Inr (leader, m, b)"
  then have "b = spec_union_bbox
      (filter (\<lambda>a. type a = T_bbox) grp @ filter (\<lambda>a. type a = T_mask) grp)"
    using find_instance_parts_bbox compute_bbox_spec by metis
  moreover have "set (filter (\<lambda>a. type a = T_bbox) grp @ filter (\<lambda>a. type a = T_mask) grp)
      = set (filter (\<lambda>a. type a \<in> {T_bbox, T_mask}) grp)"
    by auto
  ultimately show "b = spec_union_bbox (filter (\<lambda>a. type a \<in> {T_bbox, T_mask}) grp)"
    using spec_union_bbox_cong by metis
qed


theorem leader_is_first_max_of_boxes_then_masks_witness:
  "find_instance_parts (example_converter False)
       [mask_ann (Some 1) None 5 (0, 0, 5, 1), bbox_ann (Some 1) None (2, 2, 5, 1),
        bbox_ann (Some 1) None (3, 3, 1, 5)] 100 50
     = Inr (bbox_ann (Some 1) None (2, 2, 5, 1), None, (0, 0, 7, 8))
   \<and> spec_leader
       [bbox_ann (Some 1) None (2, 2, 5, 1), bbox_ann (Some 1) None (3, 3, 1, 5),
        mask_ann (Some 1) None 5 (0, 0, 5, 1)]
     = Some (bbox_ann (Some 1) None (2, 2, 5, 1))"
proof -
  let ?grp = "[mask_ann (Some 1) None 5 (0, 0, 5, 1), bbox_ann (Some 1) None (2, 2, 5, 1),
        bbox_ann (Some 1) None (3, 3, 1, 5)]"
  have ev: "find_instance_parts (example_converter False) ?grp 100 50
     = Inr (bbox_ann (Some 1) None (2, 2, 5, 1), None, (0, 0, 7, 8))"
    by (simp add: find_instance_parts_def find_group_leader_def compute_bbox_def py_min_def
        py_max_def Let_def bbox_ann_def mask_ann_def example_converter_def)
  have "spec_leader (filter (\<lambda>a. type a = T_bbox) ?grp @ filter (\<lambda>a. type a = T_mask) ?grp)
      = Some (bbox_ann (Some 1) None (2, 2, 5, 1))"
    using leader_is_first_max_of_boxes_then_masks
      [of _ "example_converter False" ?grp 100 50 "bbox_ann (Some 1) None (2, 2, 5, 1)"
          None "(0, 0, 7, 8)"] ev
    by blast
  then have "spec_leader
       [bbox_ann (Some 1) None (2, 2, 5, 1), bbox_ann (Some 1) None (3, 3, 1, 5),
        mask_ann (Some 1) None 5 (0, 0, 5, 1)]
     = Some (bbox_ann (Some 1) None (2, 2, 5, 1))"
    by (simp add: bbox_ann_def mask_ann_def)
  with ev show ?thesis by blast
qed

theorem leader_first_in_group_order_counterexample:
  "find_instance_parts (example_converter False)
       [mask_ann (Some 1) None 5 (0, 0, 5, 1), bbox_ann (Some 1) None (2, 2, 5, 1)] 100 50
     = Inr (bbox_ann (Some 1) None (2, 2, 5, 1), None, (0, 0, 7, 3))
   \<and> spec_leader
       [mask_ann (Some 1) None 5 (0, 0, 5, 1), bbox_ann (Some 1) None (2, 2, 5, 1)]
     = Some (mask_ann (Some 1) None 5 (0, 0, 5, 1))
   \<and> mask_ann (Some 1) None 5 (0, 0, 5, 1) \<noteq> bbox_ann (Some 1) None (2, 2, 5, 1)"
  by (simp add: find_instance_parts_def find_group_leader_def compute_bbox_def py_min_def
        py_max_def Let_def bbox_ann_def mask_ann_def example_converter_def spec_leader_def)

text \<open>
  C3 (amended). For a group without bbox annotations the bounding box of the instance is
  the union of the bounding rectangles of its mask annotations; \<^verbatim>\<open>_compute_bbox\<close> yields
  \<open>(0, 0, 0, 0)\<close> when the group has no mask annotation either, that is, for an empty
  collection.
\<close>

theorem group_without_boxes_bbox:
  "filter (\<lambda>a. type a = T_bbox) grp = [] \<longrightarrow>
     (find_instance_parts self grp w h = Inr (leader, m, b) \<longrightarrow>
        b = compute_bbox (filter (\<lambda>a. type a = T_mask) grp))
     \<and> (filter (\<lambda>a. type a = T_mask) grp = [] \<longrightarrow>
          compute_bbox (filter (\<lambda>a. type a = T_bbox) grp @ filter (\<lambda>a. type a = T_mask) grp)
            = (0, 0, 0, 0))"
proof (intro impI conjI)
  assume nb: "filter (\<lambda>a. type a = T_bbox) grp = []"
  {
    assume "find_instance_parts self grp w h = Inr (leader, m, b)"
    then show "b = compute_bbox (filter (\<lambda>a. type a = T_mask) grp)"
      using find_instance_parts_bbox [of self grp w h leader m b] nb by simp
  }
  {
    assume "filter (\<lambda>a. type a = T_mask) grp = []"
    then show "compute_bbox (filter (\<lambda>a. type a = T_bbox) grp @ filter (\<lambda>a. type a = T_mask) grp)
            = (0, 0, 0, 0)"
      using nb by (simp add: compute_bbox_def py_min_def py_max_def)
  }
qed

theorem group_without_boxes_bbox_witness:
  "filter (\<lambda>a. type a = T_bbox)
       [mask_ann (Some 2) None 6 (1, 2, 3, 4), mask_ann (Some 2) None 2 (0, 3, 2, 1)] = []
   \<and> find_instance_parts (example_converter False)
       [mask_ann (Some 2) None 6 (1, 2, 3, 4), mask_ann (Some 2) None 2 (0, 3, 2, 1)] 100 50
     = Inr (mask_ann (Some 2) None 6 (1, 2, 3, 4), None, (0, 2, 4, 4))
   \<and> compute_bbox [mask_ann (Some 2) None 6 (1, 2, 3, 4), mask_ann (Some 2) None 2 (0, 3, 2, 1)]
     = (0, 2, 4, 4)
   \<and> compute_bbox ([] :: unit annotation list) = (0, 0, 0, 0)"
proof -
  let ?grp = "[mask_ann (Some 2) None 6 (1, 2, 3, 4), mask_ann (Some 2) None 2 (0, 3, 2, 1)]"
  have nb: "filter (\<lambda>a. type a = T_bbox) ?grp = []"
    by (simp add: mask_ann_def)
  have ev: "find_instance_parts (example_converter False) ?grp 100 50
     = Inr (mask_ann (Some 2) None 6 (1, 2, 3, 4), None, (0, 2, 4, 4))"
    by (simp add: find_instance_parts_def find_group_leader_def compute_bbox_def py_min_def
        py_max_def Let_def mask_ann_def example_converter_def)
  have "(0, 2, 4, 4) = compute_bbox (filter (\<lambda>a. type a = T_mask) ?grp)"
    using group_without_boxes_bbox
      [of ?grp "example_converter False" 100 50 "mask_ann (Some 2) None 6 (1, 2, 3, 4)"
          None "(0, 2, 4, 4)"] nb ev
    by blast
  then have m: "compute_bbox ?grp = (0, 2, 4, 4)"
    by (simp add: mask_ann_def)
  have e: "compute_bbox ([] :: unit annotation list) = (0, 0, 0, 0)"
    using group_without_boxes_bbox [of "[] :: unit annotation list"] by simp
  from nb ev m e show ?thesis by blast
qed

theorem mask_only_group_bbox_counterexample:
  "filter (\<lambda>a. type a = T_bbox) [mask_ann None None 6 (1, 2, 3, 4)] = []
   \<and> find_instance_parts (example_converter False) [mask_ann None None 6 (1, 2, 3, 4)] 100 50
     = Inr (mask_ann None None 6 (1, 2, 3, 4), None, (1, 2, 3, 4))
   \<and> (1, 2, 3, 4) \<noteq> (0, 0, 0, 0 :: real)"
  by (simp add: find_instance_parts_def find_group_leader_def compute_bbox_def py_min_def
        py_max_def Let_def mask_ann_def example_converter_def)

theorem bbox_is_union_of_member_rectangles_witness:
  "find_instance_parts (example_converter False)
       [bbox_ann (Some 3) None (10, 20, 30, 5), mask_ann (Some 3) None 9 (5, 22, 10, 40)] 100 50
     = Inr (bbox_ann (Some 3) None (10, 20, 30, 5), None, (5, 20, 35, 42))
   \<and> spec_union_bbox
       [bbox_ann (Some 3) None (10, 20, 30, 5), mask_ann (Some 3) None 9 (5, 22, 10, 40)]
     = (5, 20, 35, 42)"
proof -
  let ?grp = "[bbox_ann (Some 3) None (10, 20, 30, 5), mask_ann (Some 3) None 9 (5, 22, 10, 40)]"
  have ev: "find_instance_parts (example_converter False) ?grp 100 50
     = Inr (bbox_ann (Some 3) None (10, 20, 30, 5), None, (5, 20, 35, 42))"
    by (simp add: find_instance_parts_def find_group_leader_def compute_bbox_def py_min_def
        py_max_def Let_def bbox_ann_def mask_ann_def example_converter_def)
  have "(5, 20, 35, 42) = spec_union_bbox (filter (\<lambda>a. type a \<in> {T_bbox, T_mask}) ?grp)"
    using bbox_is_union_of_member_rectangles
      [of _ "example_converter False" ?grp 100 50 "bbox_ann (Some 3) None (10, 20, 30, 5)"
          None "(5, 20, 35, 42)"] ev
    by blast
  then have "spec_union_bbox ?grp = (5, 20, 35, 42)"
    by (simp add: bbox_ann_def mask_ann_def)
  with ev show ?thesis by blast
qed

section \<open>Properties of the feature encoder\<close>

lemma printable_cases:
  "c \<in> printable \<longleftrightarrow>
      (48 \<le> c \<and> c < 58) \<or> (97 \<le> c \<and> c < 123) \<or> (65 \<le> c \<and> c < 91) \<or> (33 \<le> c \<and> c < 48)
      \<or> (58 \<le> c \<and> c < 65) \<or> (91 \<le> c \<and> c < 97) \<or> (123 \<le> c \<and> c < 127)
      \<or> c = 32 \<or> c = 9 \<or> c = 10 \<or> c = 13 \<or> c = 11 \<or> c = 12"
  by (simp only: printable_def string_printable_def set_append set_upt list.set Un_iff
        atLeastLessThan_iff insert_iff empty_iff disj_assoc simp_thms)


lemma printable_iff: "c \<in> printable \<longleftrightarrow> (9 \<le> c \<and> c \<le> 13) \<or> (32 \<le> c \<and> c \<le> 126)"
proof
  assume "c \<in> printable"
  then have "(48 \<le> c \<and> c < 58) \<or> (97 \<le> c \<and> c < 123) \<or> (65 \<le> c \<and> c < 91) \<or> (33 \<le> c \<and> c < 48)
      \<or> (58 \<le> c \<and> c < 65) \<or> (91 \<le> c \<and> c < 97) \<or> (123 \<le> c \<and> c < 127)
      \<or> c = 32 \<or> c = 9 \<or> c = 10 \<or> c = 13 \<or> c = 11 \<or> c = 12"
    by (simp only: printable_cases)
  then show "(9 \<le> c \<and> c \<le> 13) \<or> (32 \<le> c \<and> c \<le> 126)"
    by (elim disjE conjE) simp_all
next
  assume r: "(9 \<le> c \<and> c \<le> 13) \<or> (32 \<le> c \<and> c \<le> 126)"
  consider "9 \<le> c \<and> c \<le> 13" | "c = 32" | "33 \<le> c \<and> c < 48" | "48 \<le> c \<and> c < 58"
    | "58 \<le> c \<and> c < 65" | "65 \<le> c \<and> c < 91" | "91 \<le> c \<and> c < 97"
    | "97 \<le> c \<and> c < 123" | "123 \<le> c \<and> c < 127"
    using r by linarith
  then show "c \<in> printable"
  proof cases
    case 1
    then have "c = 9 \<or> c = 10 \<or> c = 11 \<or> c = 12 \<or> c = 13" by linarith
    then show ?thesis unfolding printable_cases by blast
  qed (simp_all only: printable_cases simp_thms)
qed

lemma make_printable_ranges:
  "make_printable s = filter (\<lambda>c. (9 \<le> c \<and> c \<le> 13) \<or> (32 \<le> c \<and> c \<le> 126)) s"
  by (simp add: make_printable_def printable_iff)

lemma not_surrogate_ascii: "c < 128 \<Longrightarrow> \<not> surrogate c"
  by (simp add: surrogate_def)

lemma utf8_ascii: "\<forall>c\<in>set s. c < 128 \<Longrightarrow> concat (map utf8_char s) = map of_nat s"
  by (induction s) (simp_all add: utf8_char_def)

lemma encode_utf8_ascii: "\<forall>c\<in>set s. c < 128 \<Longrightarrow> encode_utf8 s = Inr (map of_nat s)"
proof -
  assume a: "\<forall>c\<in>set s. c < 128"
  then have "\<not> list_ex surrogate s"
    using not_surrogate_ascii by (auto simp: list_ex_iff)
  then show ?thesis
    using utf8_ascii [OF a] by (simp add: encode_utf8_def)
qed

lemma encode_utf8_make_printable:
  "encode_utf8 (make_printable s) = Inr (map of_nat (make_printable s))"
  by (rule encode_utf8_ascii) (auto simp: make_printable_ranges)

lemma class_text_name:
  "get_label cats (label (fst inst)) = Inr name \<Longrightarrow>
     class_text cats inst = map of_nat (make_printable name)"
  by (simp add: class_text_def encode_utf8_make_printable)

lemma export_instance_Inr:
  assumes "export_instance self cats w h inst acc = Inr acc'"
  shows "acc' = append_row self cats w h acc [inst]"
proof -
  obtain leader m b0 b1 b2 b3 where inst: "inst = (leader, m, b0, b1, b2, b3)"
    by (cases inst) auto
  from assms obtain name where name: "get_label cats (label leader) = Inr name"
    by (auto simp: export_instance_def inst encode_utf8_make_printable split: sum.splits)
  from assms name obtain cid where cid: "map_label_id cats (label leader) = Inr cid"
    by (auto simp: export_instance_def inst encode_utf8_make_printable split: sum.splits)
  from assms name cid have w: "w \<noteq> 0" and h: "h \<noteq> 0"
    by (auto simp: export_instance_def inst encode_utf8_make_printable split: if_splits)
  from assms have acc': "acc' = acc
      \<lparr>classes_text := classes_text acc @ [map of_nat (make_printable name)],
       classes := classes acc @ [cid],
       xmins := xmins acc @ [b0 / of_int w],
       xmaxs := xmaxs acc @ [(b0 + b2) / of_int w],
       ymins := ymins acc @ [b1 / of_int h],
       ymaxs := ymaxs acc @ [(b1 + b3) / of_int h],
       masks := (if save_masks self
                 then masks acc @
                   [case m of Some i \<Rightarrow> encode_image self i (lit ''.png'') | None \<Rightarrow> []]
                 else masks acc)\<rparr>"
    by (simp add: export_instance_def inst name cid w h encode_utf8_make_printable)
  show ?thesis
    unfolding acc'
    by (rule export_lists.equality)
       (simp_all add: inst name cid append_row_def class_text_name
          class_label_def mask_bytes_def inst_xmin_def inst_xmax_def inst_ymin_def inst_ymax_def)
qed


lemma append_row_Nil: "append_row self cats w h acc [] = acc"
  by (simp add: append_row_def)

lemma append_row_Cons:
  "append_row self cats w h (append_row self cats w h acc [i]) rest
     = append_row self cats w h acc (i # rest)"
  by (simp add: append_row_def)

lemma export_instances_loop_Inr:
  "export_instances_loop self cats w h insts acc = Inr l \<Longrightarrow>
     l = append_row self cats w h acc insts"
proof (induction insts arbitrary: acc)
  case Nil
  then show ?case by (simp add: append_row_Nil)
next
  case (Cons i insts)
  from Cons.prems obtain acc' where
    step: "export_instance self cats w h i acc = Inr acc'" and
    rest: "export_instances_loop self cats w h insts acc' = Inr l"
    by (auto split: sum.splits)
  have "acc' = append_row self cats w h acc [i]"
    using step by (rule export_instance_Inr)
  moreover have "l = append_row self cats w h acc' insts"
    using rest by (rule Cons.IH)
  ultimately show ?case by (simp only: append_row_Cons)
qed

lemma export_instances_Inr:
  assumes "export_instances self cats instances w h = Inr r"
  shows "r = (if instances = [] then Map.empty
              else (let result = [
                    ''image/object/bbox/xmin'' \<mapsto> FloatList (map (inst_xmin w) instances),
                    ''image/object/bbox/xmax'' \<mapsto> FloatList (map (inst_xmax w) instances),
                    ''image/object/bbox/ymin'' \<mapsto> FloatList (map (inst_ymin h) instances),
                    ''image/object/bbox/ymax'' \<mapsto> FloatList (map (inst_ymax h) instances),
                    ''image/object/class/text'' \<mapsto> BytesList (map (class_text cats) instances),
                    ''image/object/class/label'' \<mapsto> Int64List (map (class_label cats) instances)]
                  in if save_masks self
                     then result(''image/object/mask'' \<mapsto>
                            BytesList (map (mask_bytes self) instances))
                     else result))"
proof -
  from assms obtain l where
    loop: "export_instances_loop self cats w h instances empty_lists = Inr l"
    by (auto simp: export_instances_def split: sum.splits)
  then have l: "l = append_row self cats w h empty_lists instances"
    by (rule export_instances_loop_Inr)
  have fields: "xmins l = map (inst_xmin w) instances" "xmaxs l = map (inst_xmax w) instances"
    "ymins l = map (inst_ymin h) instances" "ymaxs l = map (inst_ymax h) instances"
    "classes_text l = map (class_text cats) instances"
    "classes l = map (class_label cats) instances"
    "masks l = (if save_masks self then map (mask_bytes self) instances else [])"
    by (simp_all add: l append_row_def empty_lists_def)
  have cl: "classes l \<noteq> [] \<Longrightarrow> int64_list_feature (classes l) = Inr (Int64List (classes l))"
    using assms loop
    by (auto simp: export_instances_def int64_list_feature_def split: if_splits)
  from assms loop have "r = (if classes l \<noteq> [] then
                 (let result = [
                    ''image/object/bbox/xmin'' \<mapsto> float_list_feature (xmins l),
                    ''image/object/bbox/xmax'' \<mapsto> float_list_feature (xmaxs l),
                    ''image/object/bbox/ymin'' \<mapsto> float_list_feature (ymins l),
                    ''image/object/bbox/ymax'' \<mapsto> float_list_feature (ymaxs l),
                    ''image/object/class/text'' \<mapsto> bytes_list_feature (classes_text l),
                    ''image/object/class/label'' \<mapsto> Int64List (classes l)]
                  in if masks l \<noteq> []
                     then result(''image/object/mask'' \<mapsto> bytes_list_feature (masks l))
                     else result)
               else Map.empty)"
    using cl by (cases "classes l = []") (auto simp: export_instances_def)
  then show ?thesis
    unfolding fields
    by (cases "instances = []"; cases "save_masks self")
       (simp_all add: Let_def float_list_feature_def bytes_list_feature_def)
qed



text \<open>
  C6 (amended). \<^verbatim>\<open>_make_printable\<close> keeps exactly the characters of
  \<^verbatim>\<open>string.printable\<close>, that is, the code points 32 to 126 and the whitespace 9 to
  13 (tab, line feed, vertical tab, form feed, carriage return), and drops every other
  character; what is left encodes in UTF-8 to one byte per character. The class text of
  an instance is this encoding of the catalog name of the label of its leader, and the
  feature \<^verbatim>\<open>image/object/class/text\<close> holds the class texts of the instances in order.
\<close>

theorem class_text_drops_unprintable:
  "make_printable name = filter (\<lambda>c. (9 \<le> c \<and> c \<le> 13) \<or> (32 \<le> c \<and> c \<le> 126)) name
   \<and> encode_utf8 (make_printable name) = Inr (map of_nat (make_printable name))
   \<and> (get_label cats (label leader) = Inr name \<longrightarrow>
        class_text cats (leader, m, box) = map of_nat (make_printable name))
   \<and> (export_instances self cats instances w h = Inr r \<and> instances \<noteq> [] \<longrightarrow>
        r ''image/object/class/text'' = Some (BytesList (map (class_text cats) instances)))"
proof (intro conjI impI)
  show "make_printable name = filter (\<lambda>c. (9 \<le> c \<and> c \<le> 13) \<or> (32 \<le> c \<and> c \<le> 126)) name"
    by (rule make_printable_ranges)
  show "encode_utf8 (make_printable name) = Inr (map of_nat (make_printable name))"
    by (rule encode_utf8_make_printable)
next
  assume "get_label cats (label leader) = Inr name"
  then show "class_text cats (leader, m, box) = map of_nat (make_printable name)"
    by (simp add: class_text_name)
next
  assume a: "export_instances self cats instances w h = Inr r \<and> instances \<noteq> []"
  then have ne: "instances \<noteq> []" by simp
  from a have "export_instances self cats instances w h = Inr r" by simp
  then have "r = (let result = [
                    ''image/object/bbox/xmin'' \<mapsto> FloatList (map (inst_xmin w) instances),
                    ''image/object/bbox/xmax'' \<mapsto> FloatList (map (inst_xmax w) instances),
                    ''image/object/bbox/ymin'' \<mapsto> FloatList (map (inst_ymin h) instances),
                    ''image/object/bbox/ymax'' \<mapsto> FloatList (map (inst_ymax h) instances),
                    ''image/object/class/text'' \<mapsto> BytesList (map (class_text cats) instances),
                    ''image/object/class/label'' \<mapsto> Int64List (map (class_label cats) instances)]
                  in if save_masks self
                     then result(''image/object/mask'' \<mapsto>
                            BytesList (map (mask_bytes self) instances))
                     else result)"
    using export_instances_Inr [of self cats instances w h r] ne by simp
  then show "r ''image/object/class/text'' = Some (BytesList (map (class_text cats) instances))"
    by (simp add: Let_def)
qed

theorem class_text_drops_unprintable_witness:
  "class_text [[99, 97, 102, 233, 9, 33]]
       (bbox_ann None (Some 0) (0, 0, 10, 10), None :: unit option, (0, 0, 10, 10))
     = [99, 97, 102, 9, 33]
   \<and> (\<exists>r. export_instances (example_converter False) [[99, 97, 102, 233, 9, 33]]
             [(bbox_ann None (Some 0) (0, 0, 10, 10), None, (0, 0, 10, 10))] 100 50 = Inr r
          \<and> r ''image/object/class/text'' = Some (BytesList [[99, 97, 102, 9, 33]]))"
proof -
  let ?name = "[99, 97, 102, 233, 9, 33] :: pystr"
  let ?cats = "[?name]"
  let ?leader = "bbox_ann None (Some 0) (0, 0, 10, 10)"
  let ?inst = "(?leader, None :: unit option, (0, 0, 10, 10) :: real \<times> real \<times> real \<times> real)"
  obtain r where ev: "export_instances (example_converter False) ?cats [?inst] 100 50 = Inr r"
    by (simp add: export_instances_def export_instance_def get_label_def map_label_id_def
          bbox_ann_def encode_utf8_make_printable label_ids_def int64_list_feature_def
          in_int64_def empty_lists_def)
  note T = class_text_drops_unprintable
    [of ?name ?cats ?leader "None :: unit option" "(0, 0, 10, 10)"
        "example_converter False" "[?inst]" 100 50 r]
  have gl: "get_label ?cats (label ?leader) = Inr ?name"
    by (simp add: get_label_def bbox_ann_def)
  have mp: "make_printable ?name = [99, 97, 102, 9, 33]"
    using T by simp
  have "class_text ?cats ?inst = map of_nat (make_printable ?name)"
    using T gl by blast
  also have "\<dots> = [99, 97, 102, 9, 33]"
    by (simp add: mp)
  finally have ct: "class_text ?cats ?inst = [99, 97, 102, 9, 33]" .
  have "r ''image/object/class/text'' = Some (BytesList (map (class_text ?cats) [?inst]))"
    using T ev by blast
  then have "r ''image/object/class/text'' = Some (BytesList [[99, 97, 102, 9, 33]])"
    by (simp add: ct)
  with ev ct show ?thesis by blast
qed

theorem newline_is_kept_counterexample:
  "emitted (export_instances (example_converter False) [[97, 10, 98]]
       [(bbox_ann None (Some 0) (0, 0, 10, 10), None, (0, 0, 10, 10))] 100 50)
     ''image/object/class/text'' = Some (BytesList [[97, 10, 98]])
   \<and> encode_utf8 (filter printable_ascii [97, 10, 98]) = Inr [97, 98]"
proof -
  have "make_printable [97, 10, 98] = [97, 10, 98]"
    by (simp add: make_printable_ranges)
  then have mp: "encode_utf8 (make_printable [97, 10, 98]) = Inr [97, 10, 98]"
    using encode_utf8_make_printable [of "[97, 10, 98]"] by simp
  have "export_instances (example_converter False) [[97, 10, 98]]
       [(bbox_ann None (Some 0) (0, 0, 10, 10), None, (0, 0, 10, 10))] 100 50
     = Inr [''image/object/bbox/xmin'' \<mapsto> FloatList [0],
       ''image/object/bbox/xmax'' \<mapsto> FloatList [1 / 10],
       ''image/object/bbox/ymin'' \<mapsto> FloatList [0],
       ''image/object/bbox/ymax'' \<mapsto> FloatList [1 / 5],
       ''image/object/class/text'' \<mapsto> BytesList [[97, 10, 98]],
       ''image/object/class/label'' \<mapsto> Int64List [1]]"
    by (simp add: export_instances_def export_instance_def empty_lists_def get_label_def
        map_label_id_def label_ids_def mp
        example_converter_def bbox_ann_def float_list_feature_def bytes_list_feature_def
        int64_list_feature_def in_int64_def Let_def)
  then have "emitted (export_instances (example_converter False) [[97, 10, 98]]
       [(bbox_ann None (Some 0) (0, 0, 10, 10), None, (0, 0, 10, 10))] 100 50)
     ''image/object/class/text'' = Some (BytesList [[97, 10, 98]])"
    by (simp add: emitted_def)
  moreover have "encode_utf8 (filter printable_ascii [97, 10, 98]) = Inr [97, 98]"
    by (simp add: printable_ascii_def encode_utf8_def surrogate_def utf8_char_def)
  ultimately show ?thesis by blast
qed

text \<open>
  C10. When \<^verbatim>\<open>_export_instances\<close> returns, the lists it emits are parallel: with no
  instance it emits nothing; otherwise xmin, xmax, ymin, ymax, class text and class label
  have one entry per instance, and the mask list is emitted exactly when masks are
  exported, with one entry per instance, the empty byte string for an instance without
  mask.
\<close>

theorem export_lists_are_parallel:
  "export_instances self cats instances w h = Inr r \<longrightarrow>
     (instances = [] \<longrightarrow> r = Map.empty)
     \<and> (instances \<noteq> [] \<longrightarrow>
          (\<exists>xs. r ''image/object/bbox/xmin'' = Some (FloatList xs)
                \<and> length xs = length instances)
        \<and> (\<exists>xs. r ''image/object/bbox/xmax'' = Some (FloatList xs)
                \<and> length xs = length instances)
        \<and> (\<exists>ys. r ''image/object/bbox/ymin'' = Some (FloatList ys)
                \<and> length ys = length instances)
        \<and> (\<exists>ys. r ''image/object/bbox/ymax'' = Some (FloatList ys)
                \<and> length ys = length instances)
        \<and> (\<exists>ts. r ''image/object/class/text'' = Some (BytesList ts)
                \<and> length ts = length instances)
        \<and> (\<exists>cs. r ''image/object/class/label'' = Some (Int64List cs)
                \<and> length cs = length instances)
        \<and> (save_masks self \<longrightarrow>
             (\<exists>ms. r ''image/object/mask'' = Some (BytesList ms)
                \<and> length ms = length instances
                \<and> (\<forall>i<length instances.
                      fst (snd (instances ! i)) = None \<longrightarrow> ms ! i = [])))
        \<and> (\<not> save_masks self \<longrightarrow> r ''image/object/mask'' = None))"
proof (intro impI conjI)
  assume ex: "export_instances self cats instances w h = Inr r"
  note r = export_instances_Inr [OF ex]
  {
    assume "instances = []"
    then show "r = Map.empty" using r by simp
  }
  {
    assume ne: "instances \<noteq> []"
    show "\<exists>xs. r ''image/object/bbox/xmin'' = Some (FloatList xs) \<and> length xs = length instances"
      using r ne by (simp add: Let_def)
    show "\<exists>xs. r ''image/object/bbox/xmax'' = Some (FloatList xs) \<and> length xs = length instances"
      using r ne by (simp add: Let_def)
    show "\<exists>ys. r ''image/object/bbox/ymin'' = Some (FloatList ys) \<and> length ys = length instances"
      using r ne by (simp add: Let_def)
    show "\<exists>ys. r ''image/object/bbox/ymax'' = Some (FloatList ys) \<and> length ys = length instances"
      using r ne by (simp add: Let_def)
    show "\<exists>ts. r ''image/object/class/text'' = Some (BytesList ts) \<and> length ts = length instances"
      using r ne by (simp add: Let_def)
    show "\<exists>cs. r ''image/object/class/label'' = Some (Int64List cs) \<and> length cs = length instances"
      using r ne by (simp add: Let_def)
    {
      assume sm: "save_masks self"
      have "r ''image/object/mask'' = Some (BytesList (map (mask_bytes self) instances))"
        using r ne sm by (simp add: Let_def)
      moreover have "\<forall>i<length instances.
          fst (snd (instances ! i)) = None \<longrightarrow> map (mask_bytes self) instances ! i = []"
        by (simp add: mask_bytes_def)
      ultimately show "\<exists>ms. r ''image/object/mask'' = Some (BytesList ms)
                \<and> length ms = length instances
                \<and> (\<forall>i<length instances.
                      fst (snd (instances ! i)) = None \<longrightarrow> ms ! i = [])"
        by simp
    }
    {
      assume "\<not> save_masks self"
      then show "r ''image/object/mask'' = None"
        using r ne by (simp add: Let_def)
    }
  }
qed


theorem export_lists_are_parallel_witness:
  "\<exists>r. export_instances (example_converter True) [[99, 97, 116]]
          [(bbox_ann None (Some 0) (0, 0, 10, 10), None, (0, 0, 10, 10)),
           (mask_ann None None 4 (20, 20, 30, 10), Some (), (20, 20, 30, 10))] 100 50 = Inr r
     \<and> (\<exists>xs. r ''image/object/bbox/xmin'' = Some (FloatList xs) \<and> length xs = 2)
     \<and> (\<exists>cs. r ''image/object/class/label'' = Some (Int64List cs) \<and> length cs = 2)
     \<and> (\<exists>ms. r ''image/object/mask'' = Some (BytesList ms) \<and> length ms = 2 \<and> ms ! 0 = [])"
proof -
  let ?insts = "[(bbox_ann None (Some 0) (0, 0, 10, 10), None, (0, 0, 10, 10)),
           (mask_ann None None 4 (20, 20, 30, 10), Some (), (20, 20, 30, 10))]
           :: unit instance_parts list"
  obtain r where
    ev: "export_instances (example_converter True) [[99, 97, 116]] ?insts 100 50 = Inr r"
    by (simp add: export_instances_def export_instance_def get_label_def map_label_id_def
          bbox_ann_def mask_ann_def encode_utf8_make_printable label_ids_def
          int64_list_feature_def in_int64_def empty_lists_def)
  note T = export_lists_are_parallel
    [of "example_converter True" "[[99, 97, 116]]" ?insts 100 50 r]
  have ne: "?insts \<noteq> []" by simp
  have sm: "save_masks (example_converter True)" by (simp add: example_converter_def)
  have len: "length ?insts = 2" by simp
  have x: "\<exists>xs. r ''image/object/bbox/xmin'' = Some (FloatList xs) \<and> length xs = 2"
    using T ev ne unfolding len by blast
  have c: "\<exists>cs. r ''image/object/class/label'' = Some (Int64List cs) \<and> length cs = 2"
    using T ev ne unfolding len by blast
  obtain ms where ms: "r ''image/object/mask'' = Some (BytesList ms)" "length ms = 2"
    and none: "\<forall>i<2. fst (snd (?insts ! i)) = None \<longrightarrow> ms ! i = []"
    using T ev ne sm unfolding len by blast
  have "fst (snd (?insts ! 0)) = None" by simp
  with none have "ms ! 0 = []" by (metis zero_less_numeral)
  with ev x c ms show ?thesis by blast
qed

section \<open>Properties of a converted item\<close>

lemma groupby_nonempty: "(k, g) \<in> set (groupby key xs) \<Longrightarrow> g \<noteq> []"
proof (induction key xs rule: groupby.induct)
  case (1 key)
  then show ?case by (simp add: groupby.simps)
next
  case (2 key x xs)
  from "2.prems" have "g = x # takeWhile (\<lambda>y. key y = key x) xs
      \<or> (k, g) \<in> set (groupby key (dropWhile (\<lambda>y. key y = key x) xs))"
    by (simp add: groupby.simps) blast
  then show ?case
    using "2.IH" by blast
qed

lemma expand_run_nonempty: "snd r \<noteq> [] \<Longrightarrow> g \<in> set (expand_run r) \<Longrightarrow> g \<noteq> []"
  by (auto simp: expand_run_def split: if_splits)

lemma find_instances_groups:
  assumes "g \<in> set (find_instances anns)"
  shows "g \<noteq> []" and "set g \<subseteq> set (find_instance_anns anns)"
proof -
  from assms obtain r where r: "r \<in> set (groupby group (find_instance_anns anns))"
    and g: "g \<in> set (expand_run r)"
    by (auto simp: find_instances_expand)
  obtain k run where kr: "r = (k, run)" by (cases r)
  have "snd r \<noteq> []" using r groupby_nonempty [of k run] kr by simp
  then show "g \<noteq> []" using g by (rule expand_run_nonempty)
  have "set g \<subseteq> set (concat (find_instances anns))" using assms by auto
  then show "set g \<subseteq> set (find_instance_anns anns)"
    by (simp only: concat_find_instances)
qed

lemma instance_group_parts:
  assumes "g \<in> set (find_instances anns)"
  shows "\<exists>leader. leader \<in> set g \<and>
     find_instance_parts self g w h =
       Inr (leader,
            (if save_masks self
             then merge_masks self (map mask_image (filter (\<lambda>a. type a = T_mask) g))
             else None),
            compute_bbox (filter (\<lambda>a. type a = T_bbox) g @ filter (\<lambda>a. type a = T_mask) g))"
proof -
  let ?anns = "filter (\<lambda>a. type a = T_bbox) g @ filter (\<lambda>a. type a = T_mask) g"
  have ne: "g \<noteq> []" and sub: "set g \<subseteq> set (find_instance_anns anns)"
    using find_instances_groups [OF assms] by simp_all
  have kinds: "\<forall>a\<in>set g. type a = T_bbox \<or> type a = T_mask"
    using sub by (auto simp: find_instance_anns_def)
  have seteq: "set ?anns = set g" using kinds by auto
  then have "?anns \<noteq> []" using ne by (metis set_empty)
  then obtain a rest where ar: "?anns = a # rest" by (cases ?anns) auto
  have "max_key get_area a rest \<in> set (a # rest)" by (rule max_key_in)
  then have "max_key get_area a rest \<in> set g" using ar seteq by metis
  moreover have "find_instance_parts self g w h =
       Inr (max_key get_area a rest,
            (if save_masks self
             then merge_masks self (map mask_image (filter (\<lambda>a. type a = T_mask) g))
             else None),
            compute_bbox ?anns)"
    by (simp add: find_instance_parts_def Let_def find_group_leader_def ar)
  ultimately show ?thesis by blast
qed

lemma within_image_edges:
  assumes "within_image W H (get_bbox a)"
  shows "0 \<le> bbox_left a" "bbox_left a \<le> of_int W" "0 \<le> bbox_right a" "bbox_right a \<le> of_int W"
    "0 \<le> bbox_top a" "bbox_top a \<le> of_int H" "0 \<le> bbox_bottom a" "bbox_bottom a \<le> of_int H"
  using assms
  by (auto simp: within_image_def bbox_left_def bbox_right_def bbox_top_def bbox_bottom_def
        split: prod.splits)

lemma compute_bbox_within:
  assumes all: "\<forall>a\<in>set anns. within_image W H (get_bbox a)"
    and W: "0 \<le> W" and H: "0 \<le> H"
    and cb: "compute_bbox anns = (x0, y0, bw, bh)"
  shows "0 \<le> x0 \<and> x0 \<le> of_int W \<and> 0 \<le> x0 + bw \<and> x0 + bw \<le> of_int W
       \<and> 0 \<le> y0 \<and> y0 \<le> of_int H \<and> 0 \<le> y0 + bh \<and> y0 + bh \<le> of_int H"
proof (cases "anns = []")
  case True
  then have "x0 = 0" "y0 = 0" "bw = 0" "bh = 0"
    using cb by (simp_all add: compute_bbox_def py_min_def py_max_def)
  then show ?thesis using W H by simp
next
  case False
  then have fin: "finite (set anns)" and ne: "set anns \<noteq> {}" by simp_all
  have sp: "spec_union_bbox anns = (x0, y0, bw, bh)"
    using cb by (simp only: compute_bbox_spec)
  have x0: "x0 = Min (bbox_left ` set anns)" and y0: "y0 = Min (bbox_top ` set anns)"
    and x1: "x0 + bw = Max (bbox_right ` set anns)"
    and y1: "y0 + bh = Max (bbox_bottom ` set anns)"
    using sp False by (simp_all add: spec_union_bbox_def Let_def)
  have "x0 \<in> bbox_left ` set anns" unfolding x0 using fin ne by (intro Min_in) simp_all
  then obtain a where a: "a \<in> set anns" "x0 = bbox_left a" by blast
  have "y0 \<in> bbox_top ` set anns" unfolding y0 using fin ne by (intro Min_in) simp_all
  then obtain b where b: "b \<in> set anns" "y0 = bbox_top b" by blast
  have "x0 + bw \<in> bbox_right ` set anns" unfolding x1 using fin ne by (intro Max_in) simp_all
  then obtain c where c: "c \<in> set anns" "x0 + bw = bbox_right c" by blast
  have "y0 + bh \<in> bbox_bottom ` set anns" unfolding y1 using fin ne by (intro Max_in) simp_all
  then obtain d where d: "d \<in> set anns" "y0 + bh = bbox_bottom d" by blast
  show ?thesis
    using within_image_edges [of W H a] within_image_edges [of W H b]
      within_image_edges [of W H c] within_image_edges [of W H d] all a b c d
    by simp
qed

lemma unit_interval_div:
  fixes v :: real
  assumes "0 \<le> v" "v \<le> of_int W" "0 < W"
  shows "0 \<le> v / of_int W \<and> v / of_int W \<le> 1"
  using assms by (simp add: divide_le_eq_1)

lemma instance_parts_list_all2:
  "instance_parts_list self w h gs = Inr ps \<Longrightarrow>
     list_all2 (\<lambda>g p. find_instance_parts self g w h = Inr p) gs ps"
proof (induction gs arbitrary: ps)
  case Nil
  then show ?case by simp
next
  case (Cons g gs)
  from Cons.prems obtain p qs where p: "find_instance_parts self g w h = Inr p"
    and qs: "instance_parts_list self w h gs = Inr qs" and ps: "ps = p # qs"
    by (simp split: sum.splits)
  from qs have "list_all2 (\<lambda>g p. find_instance_parts self g w h = Inr p) gs qs"
    by (rule Cons.IH)
  then show ?case using p ps by simp
qed

lemma all2_instance_parts_list:
  "list_all2 (\<lambda>g p. find_instance_parts self g w h = Inr p) gs ps \<Longrightarrow>
     instance_parts_list self w h gs = Inr ps"
  by (induction rule: list_all2_induct) simp_all

lemma instance_parts_list_Inr:
  "instance_parts_list self w h gs = Inr ps \<longleftrightarrow>
     list_all2 (\<lambda>g p. find_instance_parts self g w h = Inr p) gs ps"
  using instance_parts_list_all2 all2_instance_parts_list by blast

lemma list_all2_exists:
  "\<forall>x\<in>set xs. \<exists>y. R x y \<Longrightarrow> \<exists>ys. list_all2 R xs ys"
proof (induction xs)
  case Nil
  show ?case by simp
next
  case (Cons x xs)
  then obtain y ys where "R x y" "list_all2 R xs ys" by auto
  then have "list_all2 R (x # xs) (y # ys)" by simp
  then show ?case by blast
qed

lemma list_all2_right_member:
  "list_all2 R xs ys \<Longrightarrow> y \<in> set ys \<Longrightarrow> \<exists>x\<in>set xs. R x y"
  by (induction rule: list_all2_induct) auto

lemma item_instance_parts:
  "\<exists>ps. instance_parts_list self w h (find_instances anns) = Inr ps"
proof -
  have "\<forall>g\<in>set (find_instances anns). \<exists>p. find_instance_parts self g w h = Inr p"
    using instance_group_parts [of _ anns self w h] by blast
  then have "\<exists>ps. list_all2 (\<lambda>g p. find_instance_parts self g w h = Inr p)
      (find_instances anns) ps"
    by (rule list_all2_exists)
  then show ?thesis by (simp only: instance_parts_list_Inr)
qed

lemma item_instance_member:
  assumes "instance_parts_list self w h (find_instances anns) = Inr ps" and "p \<in> set ps"
  shows "\<exists>g. set g \<subseteq> set (find_instance_anns anns) \<and> fst p \<in> set g
     \<and> snd (snd p) = compute_bbox
          (filter (\<lambda>a. type a = T_bbox) g @ filter (\<lambda>a. type a = T_mask) g)"
proof -
  from assms obtain g where g: "g \<in> set (find_instances anns)"
    and p: "find_instance_parts self g w h = Inr p"
    using list_all2_right_member [of _ "find_instances anns" ps p]
    by (auto simp only: instance_parts_list_Inr)
  from instance_group_parts [OF g, of self w h] p
  have "fst p \<in> set g" and "snd (snd p) = compute_bbox
          (filter (\<lambda>a. type a = T_bbox) g @ filter (\<lambda>a. type a = T_mask) g)"
    by auto
  moreover have "set g \<subseteq> set (find_instance_anns anns)"
    using find_instances_groups(2) [OF g] .
  ultimately show ?thesis by blast
qed

lemma make_tf_example_cases:
  assumes img: "item_image item = Some img" and sz: "image_size img = (height, width)"
  shows "make_tf_example self cats item =
       (case image_features self item img of
          Inl e \<Rightarrow> Inl e
        | Inr base \<Rightarrow>
       (case instance_parts_list self width height (find_instances (annotations item)) of
          Inl e \<Rightarrow> Inl e
        | Inr instances \<Rightarrow>
            (case export_instances self cats instances width height of
               Inl e \<Rightarrow> Inl e
             | Inr r \<Rightarrow> Inr (base ++ r))))"
proof (cases "encode_utf8 (item_id item)")
  case (Inl e)
  show ?thesis
    unfolding make_tf_example_def image_features_def Inl sum.case by (rule refl)
next
  case source_id: (Inr a)
  show ?thesis
  proof (cases "encode_utf8 (item_id item @ IMAGE_EXT self)")
    case (Inl e)
    show ?thesis
      unfolding make_tf_example_def image_features_def source_id Inl sum.case by (rule refl)
  next
    case filename: (Inr b)
    show ?thesis
    proof (cases "int64_feature height")
      case (Inl e)
      show ?thesis
        unfolding make_tf_example_def image_features_def source_id filename img sz Let_def
          Inl sum.case option.case prod.case
        by (rule refl)
    next
      case fh: (Inr c)
      show ?thesis
      proof (cases "int64_feature width")
        case (Inl e)
        show ?thesis
          unfolding make_tf_example_def image_features_def source_id filename img sz Let_def
            fh Inl sum.case option.case prod.case
          by (rule refl)
      next
        case fw: (Inr d)
        show ?thesis
        proof (cases "save_images self")
          case False
          show ?thesis
            unfolding make_tf_example_def image_features_def source_id filename img sz
              Let_def fh fw sum.case option.case prod.case
            by (simp only: False if_False sum.case)
        next
          case True
          show ?thesis
          proof (cases "image_data img")
            case None
            show ?thesis
              unfolding make_tf_example_def image_features_def source_id filename img sz
                Let_def fh fw None sum.case option.case prod.case
              by (simp only: True if_True sum.case)
          next
            case (Some px)
            show ?thesis
            proof (cases "encode_utf8 (IMAGE_FORMAT self)")
              case (Inl e)
              show ?thesis
                unfolding make_tf_example_def image_features_def source_id filename img sz
                  Let_def fh fw Some Inl sum.case option.case prod.case
                by (simp only: True if_True sum.case)
            next
              case (Inr fmt)
              show ?thesis
                unfolding make_tf_example_def image_features_def source_id filename img sz
                  Let_def fh fw Some Inr sum.case option.case prod.case
                by (simp only: True if_True sum.case)
            qed
          qed
        qed
      qed
    qed
  qed
qed

lemma image_features_object_keys:
  assumes "image_features self item img = Inr base"
  shows "base ''image/object/bbox/xmin'' = None"
    "base ''image/object/bbox/xmax'' = None"
    "base ''image/object/bbox/ymin'' = None"
    "base ''image/object/bbox/ymax'' = None"
  using assms
  by (auto simp: image_features_def Let_def
        split: prod.splits option.splits sum.splits if_splits)

lemma instance_coords_unit:
  assumes ps: "instance_parts_list self W H (find_instances anns) = Inr ps"
    and p: "p \<in> set ps"
    and all: "\<forall>a\<in>set anns. type a \<in> {T_bbox, T_mask} \<longrightarrow> within_image W H (get_bbox a)"
    and W: "0 < W" and H: "0 < H"
  shows "0 \<le> inst_xmin W p \<and> inst_xmin W p \<le> 1 \<and> 0 \<le> inst_xmax W p \<and> inst_xmax W p \<le> 1
       \<and> 0 \<le> inst_ymin H p \<and> inst_ymin H p \<le> 1 \<and> 0 \<le> inst_ymax H p \<and> inst_ymax H p \<le> 1"
proof -
  from item_instance_member [OF ps p] obtain g where
    sub: "set g \<subseteq> set (find_instance_anns anns)" and
    box: "snd (snd p) = compute_bbox
          (filter (\<lambda>a. type a = T_bbox) g @ filter (\<lambda>a. type a = T_mask) g)"
    by blast
  let ?anns = "filter (\<lambda>a. type a = T_bbox) g @ filter (\<lambda>a. type a = T_mask) g"
  obtain x0 y0 bw bh where b: "snd (snd p) = (x0, y0, bw, bh)"
    by (cases "snd (snd p)") auto
  have "\<forall>a\<in>set ?anns. within_image W H (get_bbox a)"
    using sub all by (auto simp: find_instance_anns_def)
  moreover have "0 \<le> W" "0 \<le> H" using W H by simp_all
  moreover have "compute_bbox ?anns = (x0, y0, bw, bh)" using box b by simp
  ultimately have bounds:
    "0 \<le> x0 \<and> x0 \<le> of_int W \<and> 0 \<le> x0 + bw \<and> x0 + bw \<le> of_int W
       \<and> 0 \<le> y0 \<and> y0 \<le> of_int H \<and> 0 \<le> y0 + bh \<and> y0 + bh \<le> of_int H"
    by (rule compute_bbox_within)
  have "0 \<le> x0 / of_int W \<and> x0 / of_int W \<le> 1"
    using bounds W by (intro unit_interval_div) simp_all
  moreover have "0 \<le> (x0 + bw) / of_int W \<and> (x0 + bw) / of_int W \<le> 1"
    using bounds W by (intro unit_interval_div) simp_all
  moreover have "0 \<le> y0 / of_int H \<and> y0 / of_int H \<le> 1"
    using bounds H by (intro unit_interval_div) simp_all
  moreover have "0 \<le> (y0 + bh) / of_int H \<and> (y0 + bh) / of_int H \<le> 1"
    using bounds H by (intro unit_interval_div) simp_all
  ultimately show ?thesis
    by (simp add: inst_xmin_def inst_xmax_def inst_ymin_def inst_ymax_def b)
qed

lemma export_instances_coords:
  assumes "export_instances self cats ps w h = Inr r"
  shows "r ''image/object/bbox/xmin'' = Some (FloatList vs) \<Longrightarrow> vs = map (inst_xmin w) ps"
    and "r ''image/object/bbox/xmax'' = Some (FloatList vs) \<Longrightarrow> vs = map (inst_xmax w) ps"
    and "r ''image/object/bbox/ymin'' = Some (FloatList vs) \<Longrightarrow> vs = map (inst_ymin h) ps"
    and "r ''image/object/bbox/ymax'' = Some (FloatList vs) \<Longrightarrow> vs = map (inst_ymax h) ps"
  using export_instances_Inr [OF assms]
  by (cases "ps = []"; cases "save_masks self"; simp add: Let_def)+

lemma make_tf_example_object_key:
  assumes ex: "make_tf_example self cats item = Inr ex"
    and img: "item_image item = Some img" and sz: "image_size img = (height, width)"
  shows "\<exists>ps r base. image_features self item img = Inr base
      \<and> instance_parts_list self width height (find_instances (annotations item)) = Inr ps
      \<and> export_instances self cats ps width height = Inr r
      \<and> ex = base ++ r"
  using ex unfolding make_tf_example_cases [OF img sz]
  by (simp split: sum.splits)

text \<open>
  C7. For an item with positive pixel width and height, if the bounding rectangle of
  every bbox and mask annotation lies within the image (its left edge, top edge, width
  and height are not negative, left plus width is at most the image width and top plus
  height at most the image height), then every normalised coordinate that is emitted
  (xmin, xmax, ymin, ymax) lies in the closed interval from 0 to 1.
\<close>

theorem normalized_coordinates_in_unit_interval:
  "item_image item = Some img \<and> image_size img = (height, width) \<and> 0 < width \<and> 0 < height
   \<and> (\<forall>a\<in>set (annotations item).
         type a \<in> {T_bbox, T_mask} \<longrightarrow> within_image width height (get_bbox a))
   \<and> make_tf_example self cats item = Inr ex
   \<longrightarrow> (\<forall>vs. ex ''image/object/bbox/xmin'' = Some (FloatList vs)
              \<longrightarrow> (\<forall>v\<in>set vs. 0 \<le> v \<and> v \<le> 1))
     \<and> (\<forall>vs. ex ''image/object/bbox/xmax'' = Some (FloatList vs)
              \<longrightarrow> (\<forall>v\<in>set vs. 0 \<le> v \<and> v \<le> 1))
     \<and> (\<forall>vs. ex ''image/object/bbox/ymin'' = Some (FloatList vs)
              \<longrightarrow> (\<forall>v\<in>set vs. 0 \<le> v \<and> v \<le> 1))
     \<and> (\<forall>vs. ex ''image/object/bbox/ymax'' = Some (FloatList vs)
              \<longrightarrow> (\<forall>v\<in>set vs. 0 \<le> v \<and> v \<le> 1))"
proof (intro impI)
  assume a: "item_image item = Some img \<and> image_size img = (height, width) \<and> 0 < width
   \<and> 0 < height
   \<and> (\<forall>a\<in>set (annotations item).
         type a \<in> {T_bbox, T_mask} \<longrightarrow> within_image width height (get_bbox a))
   \<and> make_tf_example self cats item = Inr ex"
  then have img: "item_image item = Some img" and sz: "image_size img = (height, width)"
    and W: "0 < width" and H: "0 < height"
    and all: "\<forall>a\<in>set (annotations item).
         type a \<in> {T_bbox, T_mask} \<longrightarrow> within_image width height (get_bbox a)"
    and ex: "make_tf_example self cats item = Inr ex"
    by simp_all
  from make_tf_example_object_key [OF ex img sz] obtain ps r base where
    base: "image_features self item img = Inr base"
    and ps: "instance_parts_list self width height (find_instances (annotations item)) = Inr ps"
    and r: "export_instances self cats ps width height = Inr r"
    and exr: "ex = base ++ r"
    by blast
  note unit = instance_coords_unit [OF ps _ all W H]
  have keys: "ex ''image/object/bbox/xmin'' = r ''image/object/bbox/xmin''"
    "ex ''image/object/bbox/xmax'' = r ''image/object/bbox/xmax''"
    "ex ''image/object/bbox/ymin'' = r ''image/object/bbox/ymin''"
    "ex ''image/object/bbox/ymax'' = r ''image/object/bbox/ymax''"
    unfolding exr
    by (auto simp only: map_add_def image_features_object_keys [OF base] split: option.splits)
  show "(\<forall>vs. ex ''image/object/bbox/xmin'' = Some (FloatList vs)
              \<longrightarrow> (\<forall>v\<in>set vs. 0 \<le> v \<and> v \<le> 1))
     \<and> (\<forall>vs. ex ''image/object/bbox/xmax'' = Some (FloatList vs)
              \<longrightarrow> (\<forall>v\<in>set vs. 0 \<le> v \<and> v \<le> 1))
     \<and> (\<forall>vs. ex ''image/object/bbox/ymin'' = Some (FloatList vs)
              \<longrightarrow> (\<forall>v\<in>set vs. 0 \<le> v \<and> v \<le> 1))
     \<and> (\<forall>vs. ex ''image/object/bbox/ymax'' = Some (FloatList vs)
              \<longrightarrow> (\<forall>v\<in>set vs. 0 \<le> v \<and> v \<le> 1))"
  proof (intro conjI allI impI ballI)
    fix vs v assume "ex ''image/object/bbox/xmin'' = Some (FloatList vs)" and v: "v \<in> set vs"
    then have "vs = map (inst_xmin width) ps"
      using export_instances_coords(1) [OF r] keys(1) by simp
    then obtain p where "p \<in> set ps" "v = inst_xmin width p" using v by auto
    then show "0 \<le> v" "v \<le> 1" using unit [of p] by simp_all
  next
    fix vs v assume "ex ''image/object/bbox/xmax'' = Some (FloatList vs)" and v: "v \<in> set vs"
    then have "vs = map (inst_xmax width) ps"
      using export_instances_coords(2) [OF r] keys(2) by simp
    then obtain p where "p \<in> set ps" "v = inst_xmax width p" using v by auto
    then show "0 \<le> v" "v \<le> 1" using unit [of p] by simp_all
  next
    fix vs v assume "ex ''image/object/bbox/ymin'' = Some (FloatList vs)" and v: "v \<in> set vs"
    then have "vs = map (inst_ymin height) ps"
      using export_instances_coords(3) [OF r] keys(3) by simp
    then obtain p where "p \<in> set ps" "v = inst_ymin height p" using v by auto
    then show "0 \<le> v" "v \<le> 1" using unit [of p] by simp_all
  next
    fix vs v assume "ex ''image/object/bbox/ymax'' = Some (FloatList vs)" and v: "v \<in> set vs"
    then have "vs = map (inst_ymax height) ps"
      using export_instances_coords(4) [OF r] keys(4) by simp
    then obtain p where "p \<in> set ps" "v = inst_ymax height p" using v by auto
    then show "0 \<le> v" "v \<le> 1" using unit [of p] by simp_all
  qed
qed

lemma map_add_right: "n k = Some v \<Longrightarrow> (m ++ n) k = Some v"
  by simp

lemma two_boxes_parts:
  "instance_parts_list (example_converter False) 100 50
     (find_instances [bbox_ann None None (0, 0, 10, 10), bbox_ann None None (20, 20, 30, 10)])
   = Inr [(bbox_ann None None (0, 0, 10, 10), None, (0, 0, 10, 10)),
          (bbox_ann None None (20, 20, 30, 10), None, (20, 20, 30, 10))]"
  by (simp add: find_instances_def find_instance_anns_def groupby.simps falsy_def
        find_instance_parts_def find_group_leader_def compute_bbox_def py_min_def py_max_def
        Let_def bbox_ann_def example_converter_def)

lemma two_boxes_export:
  "export_instances (example_converter False) [[99, 97, 116]]
     [(bbox_ann None None (0, 0, 10, 10), None, (0, 0, 10, 10)),
      (bbox_ann None None (20, 20, 30, 10), None, (20, 20, 30, 10))] 100 50
   = Inr [''image/object/bbox/xmin'' \<mapsto> FloatList [0, 1 / 5],
       ''image/object/bbox/xmax'' \<mapsto> FloatList [1 / 10, 1 / 2],
       ''image/object/bbox/ymin'' \<mapsto> FloatList [0, 2 / 5],
       ''image/object/bbox/ymax'' \<mapsto> FloatList [1 / 5, 3 / 5],
       ''image/object/class/text'' \<mapsto> BytesList [[], []],
       ''image/object/class/label'' \<mapsto> Int64List [0, 0]]"
  by (simp add: export_instances_def export_instance_def empty_lists_def get_label_def
        map_label_id_def label_ids_def make_printable_def encode_utf8_def
        example_converter_def bbox_ann_def float_list_feature_def bytes_list_feature_def
        int64_list_feature_def in_int64_def Let_def)

theorem normalized_coordinates_in_unit_interval_witness:
  "emitted (make_tf_example (example_converter False) [[99, 97, 116]]
       (example_item [bbox_ann None None (0, 0, 10, 10), bbox_ann None None (20, 20, 30, 10)]
          (50, 100)))
     ''image/object/bbox/xmax'' = Some (FloatList [1 / 10, 1 / 2])
   \<and> list_all (\<lambda>v. 0 \<le> v \<and> v \<le> 1) [1 / 10, 1 / 2 :: real]"
proof -
  let ?C = "example_converter False"
  let ?anns = "[bbox_ann None None (0, 0, 10, 10), bbox_ann None None (20, 20, 30, 10)]"
  let ?item = "example_item ?anns (50, 100)"
  let ?img = "\<lparr>image_size = (50, 100), image_data = None :: unit option\<rparr>"
  let ?r = "[''image/object/bbox/xmin'' \<mapsto> FloatList [0, 1 / 5],
       ''image/object/bbox/xmax'' \<mapsto> FloatList [1 / 10, 1 / 2],
       ''image/object/bbox/ymin'' \<mapsto> FloatList [0, 2 / 5],
       ''image/object/bbox/ymax'' \<mapsto> FloatList [1 / 5, 3 / 5],
       ''image/object/class/text'' \<mapsto> BytesList [[], []],
       ''image/object/class/label'' \<mapsto> Int64List [0, 0]]"
  have img: "item_image ?item = Some ?img" and sz: "image_size ?img = (50, 100)"
    and anns: "annotations ?item = ?anns"
    by (simp_all add: example_item_def)
  obtain base where base: "image_features ?C ?item ?img = Inr base"
    by (simp add: image_features_def example_item_def example_converter_def encode_utf8_def
          surrogate_def lit_def int64_feature_def in_int64_def)
  have ex: "make_tf_example ?C [[99, 97, 116]] ?item = Inr (base ++ ?r)"
    unfolding make_tf_example_cases [OF img sz] anns two_boxes_parts base
    by (simp only: sum.case two_boxes_export)
  have "?r ''image/object/bbox/xmax'' = Some (FloatList [1 / 10, 1 / 2])" by simp
  then have xmax: "(base ++ ?r) ''image/object/bbox/xmax''
      = Some (FloatList [1 / 10, 1 / 2])"
    by (rule map_add_right)
  have within: "\<forall>a\<in>set (annotations ?item).
      type a \<in> {T_bbox, T_mask} \<longrightarrow> within_image 100 50 (get_bbox a)"
    unfolding anns by (simp add: within_image_def bbox_ann_def)
  have pos: "(0 :: int) < 100" "(0 :: int) < 50" by simp_all
  have prem: "item_image ?item = Some ?img \<and> image_size ?img = (50, 100) \<and> (0 :: int) < 100
      \<and> (0 :: int) < 50
      \<and> (\<forall>a\<in>set (annotations ?item).
            type a \<in> {T_bbox, T_mask} \<longrightarrow> within_image 100 50 (get_bbox a))
      \<and> make_tf_example ?C [[99, 97, 116]] ?item = Inr (base ++ ?r)"
    using img sz pos within ex by (intro conjI)
  have "\<forall>v\<in>set [1 / 10, 1 / 2 :: real]. 0 \<le> v \<and> v \<le> 1"
    using normalized_coordinates_in_unit_interval
      [THEN mp, OF prem, THEN conjunct2, THEN conjunct1, rule_format, OF xmax]
    by blast
  then have "list_all (\<lambda>v. 0 \<le> v \<and> v \<le> 1) [1 / 10, 1 / 2 :: real]"
    by (simp only: list_all_iff)
  moreover have "emitted (make_tf_example ?C [[99, 97, 116]] ?item) ''image/object/bbox/xmax''
      = Some (FloatList [1 / 10, 1 / 2])"
    unfolding ex emitted_def by (simp only: sum.case xmax)
  ultimately show ?thesis by blast
qed

lemma get_label_valid:
  "valid_label cats l \<Longrightarrow> \<exists>name. get_label cats l = Inr name"
  by (cases l) (auto simp: valid_label_def get_label_def Let_def)

lemma export_instance_total:
  assumes "w \<noteq> 0" "h \<noteq> 0" "valid_label cats (label (fst inst))"
  shows "\<exists>acc'. export_instance self cats w h inst acc = Inr acc'"
proof -
  obtain leader m b0 b1 b2 b3 where inst: "inst = (leader, m, b0, b1, b2, b3)"
    by (cases inst) auto
  from assms(3) obtain name where name: "get_label cats (label leader) = Inr name"
    using get_label_valid [of cats "label leader"] by (auto simp: inst)
  then obtain cid where cid: "map_label_id cats (label leader) = Inr cid"
    by (simp add: map_label_id_def)
  show ?thesis
    by (simp add: export_instance_def inst name cid assms(1,2) encode_utf8_make_printable)
qed

lemma export_instances_loop_total:
  assumes "w \<noteq> 0" "h \<noteq> 0"
  shows "\<forall>inst\<in>set insts. valid_label cats (label (fst inst)) \<Longrightarrow>
     \<exists>l. export_instances_loop self cats w h insts acc = Inr l"
proof (induction insts arbitrary: acc)
  case Nil
  show ?case by simp
next
  case (Cons i insts)
  then have "valid_label cats (label (fst i))" by simp
  then obtain acc' where step: "export_instance self cats w h i acc = Inr acc'"
    using export_instance_total [OF assms, of cats i self acc] by blast
  have "\<exists>l. export_instances_loop self cats w h insts acc' = Inr l"
    using Cons by simp
  then show ?case by (simp add: step)
qed

lemma odict_set_entries:
  "(k', v') \<in> set (odict_set k v d) \<Longrightarrow> (k', v') \<in> set d \<or> (k' = k \<and> v' = v)"
  by (induction d) (auto split: if_splits)

lemma fold_odict_set_entries:
  "(k, v) \<in> set (fold (\<lambda>(idx, name) d. odict_set name (1 + int idx) d) ps d) \<Longrightarrow>
     (k, v) \<in> set d \<or> (\<exists>idx. (idx, k) \<in> set ps \<and> v = 1 + int idx)"
proof (induction ps arbitrary: d)
  case Nil
  then show ?case by simp
next
  case (Cons p ps)
  obtain idx name where p: "p = (idx, name)" by (cases p)
  from Cons.prems have "(k, v) \<in> set (fold (\<lambda>(idx, name) d. odict_set name (1 + int idx) d) ps
      (odict_set name (1 + int idx) d))"
    by (simp add: p)
  then have "(k, v) \<in> set (odict_set name (1 + int idx) d)
      \<or> (\<exists>i. (i, k) \<in> set ps \<and> v = 1 + int i)"
    by (rule Cons.IH)
  then show ?case
    using odict_set_entries [of k v name "1 + int idx" d] p by auto
qed

lemma label_ids_range:
  assumes "(k, v) \<in> set (label_ids cats)"
  shows "1 \<le> v \<and> v \<le> int (length cats)"
proof -
  from assms obtain idx where idx: "(idx, k) \<in> set (enumerate 0 cats)" and v: "v = 1 + int idx"
    using fold_odict_set_entries [of k v "enumerate 0 cats" "[]"]
    by (auto simp: label_ids_def)
  from idx have "idx < length cats" by (simp add: in_set_enumerate_eq)
  then show ?thesis using v by simp
qed

lemma map_label_id_range:
  assumes "map_label_id cats l = Inr cid"
  shows "0 \<le> cid \<and> cid \<le> int (length cats)"
proof -
  from assms obtain name where
    cid: "cid = (case map_of (label_ids cats) name of None \<Rightarrow> 0 | Some i \<Rightarrow> i)"
    by (auto simp: map_label_id_def split: sum.splits)
  show ?thesis
  proof (cases "map_of (label_ids cats) name")
    case None
    then show ?thesis using cid by simp
  next
    case (Some i)
    then have "(name, i) \<in> set (label_ids cats)" by (rule map_of_SomeD)
    then show ?thesis using label_ids_range cid Some by fastforce
  qed
qed

lemma class_label_range: "0 \<le> class_label cats inst \<and> class_label cats inst \<le> int (length cats)"
proof (cases "map_label_id cats (label (fst inst))")
  case (Inl e)
  then show ?thesis by (simp add: class_label_def)
next
  case (Inr cid)
  then show ?thesis using map_label_id_range [OF Inr] by (simp add: class_label_def)
qed

lemma class_labels_in_int64:
  assumes "int (length cats) < 2 ^ 63"
  shows "list_all in_int64 (map (class_label cats) insts)"
proof -
  have "in_int64 (class_label cats inst)" for inst :: "'a instance_parts"
    using class_label_range [of cats inst] assms by (simp add: in_int64_def)
  then show ?thesis by (simp add: list_all_iff)
qed

lemma export_instances_total:
  assumes "insts \<noteq> [] \<longrightarrow> w \<noteq> 0 \<and> h \<noteq> 0"
    and "\<forall>inst\<in>set insts. valid_label cats (label (fst inst))"
    and "int (length cats) < 2 ^ 63"
  shows "\<exists>r. export_instances self cats insts w h = Inr r"
proof (cases "insts = []")
  case True
  then show ?thesis by (simp add: export_instances_def empty_lists_def)
next
  case False
  then have "w \<noteq> 0" "h \<noteq> 0" using assms(1) by simp_all
  then obtain l where l: "export_instances_loop self cats w h insts empty_lists = Inr l"
    using export_instances_loop_total [of w h insts cats self empty_lists] assms(2) by blast
  then have "l = append_row self cats w h empty_lists insts"
    by (rule export_instances_loop_Inr)
  then have "classes l = map (class_label cats) insts"
    by (simp add: append_row_def empty_lists_def)
  then have "list_all in_int64 (classes l)"
    using class_labels_in_int64 [OF assms(3)] by simp
  then have "\<exists>f. int64_list_feature (classes l) = Inr f"
    by (simp add: int64_list_feature_def)
  then obtain f where "int64_list_feature (classes l) = Inr f" by blast
  then show ?thesis by (simp add: export_instances_def l)
qed

lemma find_instances_no_instance_anns:
  "find_instance_anns anns = [] \<Longrightarrow> find_instances anns = []"
  by (simp add: find_instances_def groupby.simps)





lemma encodable_append: "encodable (a @ b) \<longleftrightarrow> encodable a \<and> encodable b"
  by (auto simp: encodable_def list_ex_iff)

lemma encode_utf8_encodable: "encodable s \<Longrightarrow> \<exists>b. encode_utf8 s = Inr b"
  by (simp add: encodable_def encode_utf8_def)

lemma encode_utf8_not_encodable: "\<not> encodable s \<Longrightarrow> encode_utf8 s = Inl UnicodeEncodeError"
  by (simp add: encodable_def encode_utf8_def)

lemma image_features_total:
  assumes sz: "image_size img = (height, width)"
    and ident: "encodable (item_id item)" and ext: "encodable (IMAGE_EXT self)"
    and fmt: "save_images self \<and> image_data img \<noteq> None \<longrightarrow> encodable (IMAGE_FORMAT self)"
    and h: "in_int64 height" and w: "in_int64 width"
  shows "\<exists>base. image_features self item img = Inr base"
proof -
  obtain a where a: "encode_utf8 (item_id item) = Inr a"
    using encode_utf8_encodable [OF ident] by blast
  have "encodable (item_id item @ IMAGE_EXT self)"
    using ident ext by (simp add: encodable_append)
  then obtain b where b: "encode_utf8 (item_id item @ IMAGE_EXT self) = Inr b"
    using encode_utf8_encodable by blast
  show ?thesis
  proof (cases "save_images self \<and> image_data img \<noteq> None")
    case True
    then obtain px where px: "image_data img = Some px" by auto
    from True fmt obtain c where c: "encode_utf8 (IMAGE_FORMAT self) = Inr c"
      using encode_utf8_encodable by blast
    show ?thesis
      using True
      by (simp add: image_features_def a b sz int64_feature_def h w Let_def px c)
  next
    case False
    then show ?thesis
      by (cases "image_data img")
         (simp_all add: image_features_def a b sz int64_feature_def h w Let_def)
  qed
qed

lemma make_tf_example_returns:
  assumes img: "item_image item = Some img" and sz: "image_size img = (height, width)"
    and ident: "encodable (item_id item)" and ext: "encodable (IMAGE_EXT self)"
    and fmt: "save_images self \<and> image_data img \<noteq> None \<longrightarrow> encodable (IMAGE_FORMAT self)"
    and h: "in_int64 height" and w: "in_int64 width"
    and len: "int (length cats) < 2 ^ 63"
    and nz: "find_instance_anns (annotations item) \<noteq> [] \<longrightarrow> width \<noteq> 0 \<and> height \<noteq> 0"
    and valid: "\<forall>a\<in>set (annotations item).
           type a \<in> {T_bbox, T_mask} \<longrightarrow> valid_label cats (label a)"
  shows "\<exists>ex. make_tf_example self cats item = Inr ex"
proof -
  obtain base where base: "image_features self item img = Inr base"
    using image_features_total [OF sz ident ext fmt h w] by blast
  obtain ps where
    ps: "instance_parts_list self width height (find_instances (annotations item)) = Inr ps"
    using item_instance_parts by blast
  have "ps \<noteq> [] \<longrightarrow> width \<noteq> 0 \<and> height \<noteq> 0"
  proof
    assume "ps \<noteq> []"
    then have "find_instances (annotations item) \<noteq> []"
      using ps by auto
    then have "find_instance_anns (annotations item) \<noteq> []"
      using find_instances_no_instance_anns by blast
    then show "width \<noteq> 0 \<and> height \<noteq> 0" using nz by simp
  qed
  moreover have "\<forall>p\<in>set ps. valid_label cats (label (fst p))"
  proof
    fix p assume "p \<in> set ps"
    from item_instance_member [OF ps this] obtain g where
      "set g \<subseteq> set (find_instance_anns (annotations item))" "fst p \<in> set g"
      by blast
    then have "fst p \<in> set (annotations item)" "type (fst p) \<in> {T_bbox, T_mask}"
      by (auto simp: find_instance_anns_def)
    then show "valid_label cats (label (fst p))" using valid by blast
  qed
  ultimately obtain r where r: "export_instances self cats ps width height = Inr r"
    using export_instances_total [OF _ _ len] by blast
  show ?thesis
    unfolding make_tf_example_cases [OF img sz] base ps by (simp add: r)
qed




lemma zero_width_raises:
  "make_tf_example (example_converter False) [[99, 97, 116]]
       (example_item [bbox_ann None None (0, 0, 10, 10)] (50, 0)) = Inl ZeroDivisionError"
proof -
  let ?C = "example_converter False"
  let ?anns = "[bbox_ann None None (0, 0, 10, 10)]"
  let ?item = "example_item ?anns (50, 0)"
  let ?img = "\<lparr>image_size = (50, 0), image_data = None :: unit option\<rparr>"
  have img: "item_image ?item = Some ?img" and sz: "image_size ?img = (50, 0)"
    and anns: "annotations ?item = ?anns"
    by (simp_all add: example_item_def)
  have parts: "instance_parts_list ?C 0 50 (find_instances ?anns)
      = Inr [(bbox_ann None None (0, 0, 10, 10), None, (0, 0, 10, 10))]"
    by (simp add: find_instances_def find_instance_anns_def groupby.simps falsy_def
        find_instance_parts_def find_group_leader_def compute_bbox_def py_min_def py_max_def
        Let_def bbox_ann_def example_converter_def)
  have export: "export_instances ?C [[99, 97, 116]]
      [(bbox_ann None None (0, 0, 10, 10), None, (0, 0, 10, 10))] 0 50 = Inl ZeroDivisionError"
    by (simp add: export_instances_def export_instance_def get_label_def map_label_id_def
          bbox_ann_def make_printable_def encode_utf8_def)
  obtain base where base: "image_features ?C ?item ?img = Inr base"
    by (simp add: image_features_def example_item_def example_converter_def encode_utf8_def
          surrogate_def lit_def int64_feature_def in_int64_def)
  show ?thesis
    unfolding make_tf_example_cases [OF img sz] anns parts base
    by (simp only: sum.case export)
qed

lemma height_out_of_int64_raises:
  "make_tf_example (example_converter False) [[99, 97, 116]]
       (example_item [] (2 ^ 63, 100)) = Inl ValueError"
  by (simp add: make_tf_example_def example_item_def example_converter_def encode_utf8_def
        surrogate_def lit_def int64_feature_def in_int64_def)

lemma surrogate_id_raises:
  "make_tf_example (example_converter False) [[99, 97, 116]]
       \<lparr>item_id = [55296], annotations = [],
        item_image = Some \<lparr>image_size = (50, 100), image_data = None\<rparr>\<rparr>
     = Inl UnicodeEncodeError"
  by (simp add: make_tf_example_def encode_utf8_def surrogate_def)


section \<open>Properties of a run\<close>

lemma make_tf_example_no_image:
  assumes "item_image item = None"
  shows "make_tf_example self cats item = Inl (missing_image_error self item)"
proof (cases "encodable (item_id item)")
  case False
  then have "encode_utf8 (item_id item) = Inl UnicodeEncodeError"
    by (rule encode_utf8_not_encodable)
  then show ?thesis
    using False by (simp add: make_tf_example_def missing_image_error_def)
next
  case True
  then obtain a where a: "encode_utf8 (item_id item) = Inr a"
    using encode_utf8_encodable by blast
  show ?thesis
  proof (cases "encodable (IMAGE_EXT self)")
    case False
    then have "\<not> encodable (item_id item @ IMAGE_EXT self)"
      by (simp add: encodable_append)
    then have "encode_utf8 (item_id item @ IMAGE_EXT self) = Inl UnicodeEncodeError"
      by (rule encode_utf8_not_encodable)
    then show ?thesis
      using False by (simp add: make_tf_example_def missing_image_error_def a)
  next
    case ext: True
    then have "encodable (item_id item @ IMAGE_EXT self)"
      using True by (simp add: encodable_append)
    then obtain b where b: "encode_utf8 (item_id item @ IMAGE_EXT self) = Inr b"
      using encode_utf8_encodable by blast
    show ?thesis
      using True ext assms
      by (simp add: make_tf_example_def missing_image_error_def a b Let_def)
  qed
qed

lemma write_items_prefix:
  "map (make_tf_example self cats) before = map Inr records \<Longrightarrow>
     write_items self cats (before @ rest) written
       = write_items self cats rest (written @ records)"
proof (induction before arbitrary: records written)
  case Nil
  then show ?case by simp
next
  case (Cons item before)
  from Cons.prems obtain r rs where rs: "records = r # rs"
    and r: "make_tf_example self cats item = Inr r"
    and rest: "map (make_tf_example self cats) before = map Inr rs"
    by (cases records) auto
  show ?case
    using Cons.IH [OF rest, of "written @ [r]"] by (simp add: r rs)
qed

lemma convert_subsets_labelmap_fails:
  assumes "snd (write_labelmap (label_ids (label_names ex)) []) = Some e"
  shows "convert_subsets self ex save_dir (sn # rest) fs
           = (labelmap_written self ex save_dir fs, Some e)"
proof -
  obtain bs where w: "write_labelmap (label_ids (label_names ex)) [] = (bs, Some e)"
    using assms by (cases "write_labelmap (label_ids (label_names ex)) []") simp
  show ?thesis
    by (simp add: Let_def w labelmap_written_def)
qed

lemma convert_subsets_step:
  assumes "snd (write_labelmap (label_ids (label_names ex)) []) = None"
  shows "convert_subsets self ex save_dir (sn # rest) fs =
     (case write_items self (label_names ex) (chosen_subset ex sn) [] of
        (written, Some e) \<Rightarrow>
          ((labelmap_written self ex save_dir fs)
             (path_join save_dir (chosen_name self sn @ lit ''.tfrecord'') \<mapsto>
                RecordFile written), Some e)
      | (written, None) \<Rightarrow>
          convert_subsets self ex save_dir rest
            ((labelmap_written self ex save_dir fs)
               (path_join save_dir (chosen_name self sn @ lit ''.tfrecord'') \<mapsto>
                  RecordFile written)))"
proof -
  obtain bs where w: "write_labelmap (label_ids (label_names ex)) [] = (bs, None)"
    using assms by (cases "write_labelmap (label_ids (label_names ex)) []") simp
  show ?thesis
    unfolding convert_subsets.simps Let_def chosen_name_def chosen_subset_def
      labelmap_written_def w prod.case option.case fst_conv
    by (rule refl)
qed

lemma convert_subsets_append:
  "snd (convert_subsets self ex save_dir finished fs) = None \<Longrightarrow>
     convert_subsets self ex save_dir (finished @ others) fs
       = convert_subsets self ex save_dir others (fst (convert_subsets self ex save_dir finished fs))"
proof (induction finished arbitrary: fs)
  case Nil
  show ?case by simp
next
  case (Cons sn finished)
  show ?case
  proof (cases "snd (write_labelmap (label_ids (label_names ex)) [])")
    case (Some e)
    have "convert_subsets self ex save_dir (sn # finished) fs
        = (labelmap_written self ex save_dir fs, Some e)"
      using Some by (rule convert_subsets_labelmap_fails)
    then have "snd (convert_subsets self ex save_dir (sn # finished) fs) \<noteq> None" by simp
    then show ?thesis using Cons.prems by simp
  next
    case lm: None
    note step0 = convert_subsets_step [OF lm]
    obtain written err where w:
      "write_items self (label_names ex) (chosen_subset ex sn) [] = (written, err)"
      by (cases "write_items self (label_names ex) (chosen_subset ex sn) []")
    show ?thesis
    proof (cases err)
      case None
      let ?fs = "(labelmap_written self ex save_dir fs)
                 (path_join save_dir (chosen_name self sn @ lit ''.tfrecord'') \<mapsto>
                    RecordFile written)"
      have step: "convert_subsets self ex save_dir (sn # xs) fs
          = convert_subsets self ex save_dir xs ?fs" for xs
        by (simp only: step0 w None prod.case option.case)
      have "snd (convert_subsets self ex save_dir finished ?fs) = None"
        using Cons.prems by (simp only: step)
      then have "convert_subsets self ex save_dir (finished @ others) ?fs
         = convert_subsets self ex save_dir others (fst (convert_subsets self ex save_dir finished ?fs))"
        by (rule Cons.IH)
      then show ?thesis by (simp only: step append_Cons)
    next
      case (Some e)
      have "convert_subsets self ex save_dir (sn # finished) fs
          = ((labelmap_written self ex save_dir fs)
                 (path_join save_dir (chosen_name self sn @ lit ''.tfrecord'') \<mapsto>
                    RecordFile written), Some e)"
        by (simp only: step0 w Some prod.case option.case)
      then have "snd (convert_subsets self ex save_dir (sn # finished) fs) \<noteq> None" by simp
      then show ?thesis using Cons.prems by simp
    qed
  qed
qed

text \<open>
  C5 (amended). For an item without image, \<^verbatim>\<open>_make_tf_example\<close> always raises. When
  the id of the item and the image extension are encodable in UTF-8, the exception is
  the one whose message holds the id of the item between quotes; otherwise it is the
  \<^verbatim>\<open>UnicodeEncodeError\<close> of the encoding of the id or of the file name, which comes
  before the test for the image. When the items before it in its subset convert, the
  record file of the subset holds their records and nothing else, and the run ends with
  the exception of the item: the result does not depend on the later items of the subset
  nor on the subsets that follow. When the label map cannot be written, the run ends
  there and no record file is opened for the subset.
\<close>

theorem missing_image_aborts_run:
  "item_image bad = None \<longrightarrow>
     make_tf_example self (label_names ex) bad = Inl (missing_image_error self bad)
     \<and> (encodable (item_id bad) \<and> encodable (IMAGE_EXT self) \<longrightarrow>
          missing_image_error self bad
            = Exception (lit ''Failed to export dataset item '' @ [39] @ item_id bad @ [39]
                @ lit '': item has no image info''))
     \<and> (\<not> (encodable (item_id bad) \<and> encodable (IMAGE_EXT self)) \<longrightarrow>
          missing_image_error self bad = UnicodeEncodeError)
     \<and> (map (make_tf_example self (label_names ex)) before = map Inr records \<longrightarrow>
          write_items self (label_names ex) (before @ bad # later) []
            = (records, Some (missing_image_error self bad))
          \<and> (snd (convert_subsets self ex save_dir finished fs) = None
               \<and> chosen_subset ex sn = before @ bad # later \<longrightarrow>
             (snd (write_labelmap (label_ids (label_names ex)) []) = None \<longrightarrow>
                convert_subsets self ex save_dir (finished @ sn # rest) fs
                  = ((labelmap_written self ex save_dir
                        (fst (convert_subsets self ex save_dir finished fs)))
                       (path_join save_dir (chosen_name self sn @ lit ''.tfrecord'') \<mapsto>
                          RecordFile records),
                     Some (missing_image_error self bad)))
             \<and> (\<forall>e. snd (write_labelmap (label_ids (label_names ex)) []) = Some e \<longrightarrow>
                convert_subsets self ex save_dir (finished @ sn # rest) fs
                  = (labelmap_written self ex save_dir
                        (fst (convert_subsets self ex save_dir finished fs)), Some e))))"
proof (intro impI conjI allI)
  assume bad: "item_image bad = None"
  show raise: "make_tf_example self (label_names ex) bad = Inl (missing_image_error self bad)"
    using bad by (rule make_tf_example_no_image)
  {
    assume "encodable (item_id bad) \<and> encodable (IMAGE_EXT self)"
    then show "missing_image_error self bad
            = Exception (lit ''Failed to export dataset item '' @ [39] @ item_id bad @ [39]
                @ lit '': item has no image info'')"
      by (simp only: missing_image_error_def no_image_message_def if_True simp_thms)
  }
  {
    assume "\<not> (encodable (item_id bad) \<and> encodable (IMAGE_EXT self))"
    then show "missing_image_error self bad = UnicodeEncodeError"
      by (simp only: missing_image_error_def if_False)
  }
  {
    assume ok: "map (make_tf_example self (label_names ex)) before = map Inr records"
    have "write_items self (label_names ex) (before @ bad # later) []
        = write_items self (label_names ex) (bad # later) ([] @ records)"
      using ok by (rule write_items_prefix)
    then show w: "write_items self (label_names ex) (before @ bad # later) []
            = (records, Some (missing_image_error self bad))"
      by (simp add: raise)
    {
      assume a: "snd (convert_subsets self ex save_dir finished fs) = None
               \<and> chosen_subset ex sn = before @ bad # later"
      then have d: "snd (convert_subsets self ex save_dir finished fs) = None"
        and sub: "chosen_subset ex sn = before @ bad # later" by simp_all
      have app: "convert_subsets self ex save_dir (finished @ sn # rest) fs
          = convert_subsets self ex save_dir (sn # rest)
              (fst (convert_subsets self ex save_dir finished fs))"
        using d by (rule convert_subsets_append)
      {
        assume lm: "snd (write_labelmap (label_ids (label_names ex)) []) = None"
        have "convert_subsets self ex save_dir (sn # rest)
              (fst (convert_subsets self ex save_dir finished fs))
           = ((labelmap_written self ex save_dir
                     (fst (convert_subsets self ex save_dir finished fs)))
                    (path_join save_dir (chosen_name self sn @ lit ''.tfrecord'') \<mapsto>
                       RecordFile records),
                  Some (missing_image_error self bad))"
          by (simp only: convert_subsets_step [OF lm] sub w prod.case option.case)
        then show "convert_subsets self ex save_dir (finished @ sn # rest) fs
                 = ((labelmap_written self ex save_dir
                       (fst (convert_subsets self ex save_dir finished fs)))
                      (path_join save_dir (chosen_name self sn @ lit ''.tfrecord'') \<mapsto>
                         RecordFile records),
                    Some (missing_image_error self bad))"
          by (simp only: app)
      }
      {
        fix e assume lm: "snd (write_labelmap (label_ids (label_names ex)) []) = Some e"
        have "convert_subsets self ex save_dir (sn # rest)
              (fst (convert_subsets self ex save_dir finished fs))
           = (labelmap_written self ex save_dir
                        (fst (convert_subsets self ex save_dir finished fs)), Some e)"
          using lm by (rule convert_subsets_labelmap_fails)
        then show "convert_subsets self ex save_dir (finished @ sn # rest) fs
                  = (labelmap_written self ex save_dir
                        (fst (convert_subsets self ex save_dir finished fs)), Some e)"
          by (simp only: app)
      }
    }
  }
qed

theorem surrogate_id_masks_missing_image_counterexample:
  "item_image \<lparr>item_id = [55, 55296], annotations = [], item_image = None :: unit image option\<rparr>
     = None
   \<and> make_tf_example (example_converter False) [[99, 97, 116]]
       \<lparr>item_id = [55, 55296], annotations = [], item_image = None\<rparr>
     = Inl UnicodeEncodeError"
  by (simp add: make_tf_example_def encode_utf8_def surrogate_def)

theorem missing_image_aborts_run_witness:
  "snd (call (example_converter False) example_extractor (lit ''out'') Map.empty)
     = Some (Exception (lit ''Failed to export dataset item '' @ [39, 55, 39]
               @ lit '': item has no image info''))
   \<and> (\<exists>r. fst (call (example_converter False) example_extractor (lit ''out'') Map.empty)
             (path_join (lit ''out'') (lit ''train'' @ lit ''.tfrecord''))
           = Some (RecordFile [r]))"
proof -
  let ?C = "example_converter False"
  let ?E = "example_extractor"
  let ?good = "example_item [bbox_ann None (Some 0) (0, 0, 10, 10)] (50, 100)"
  let ?sn = "Some (lit ''train'')"
  have bad: "item_image item_without_image = None"
    by (simp add: item_without_image_def)
  have enc: "encodable (item_id item_without_image) \<and> encodable (IMAGE_EXT ?C)"
    by (simp add: item_without_image_def example_converter_def encodable_def lit_def
          surrogate_def)
  have names: "label_names ?E = [[99, 97, 116]]"
    by (simp add: example_extractor_def)
  have lm: "snd (write_labelmap (label_ids (label_names ?E)) []) = None"
    unfolding names
    by (simp add: label_ids_def labelmap_entry_def str_int_def str_nat.simps lit_def
          encode_utf8_def surrogate_def)
  have "\<exists>r. make_tf_example ?C (label_names ?E) ?good = Inr r"
    unfolding names
    by (rule make_tf_example_returns
          [of ?good "\<lparr>image_size = (50, 100), image_data = None\<rparr>" 50 100])
       (simp_all add: example_item_def example_converter_def valid_label_def bbox_ann_def
          encodable_def lit_def surrogate_def in_int64_def)
  then obtain r where r: "make_tf_example ?C (label_names ?E) ?good = Inr r" by blast
  then have before: "map (make_tf_example ?C (label_names ?E)) [?good] = map Inr [r]"
    by simp
  have fin: "snd (convert_subsets ?C ?E (lit ''out'') [] Map.empty) = None" by simp
  have sub: "chosen_subset ?E ?sn = [?good] @ item_without_image # [example_item [] (50, 100)]"
    by (simp add: chosen_subset_def example_extractor_def lit_def)
  note T = missing_image_aborts_run
      [of item_without_image ?C ?E "[?good]" "[r]" "[example_item [] (50, 100)]"
          "lit ''out''" "[]" Map.empty ?sn "[]"]
  have run: "convert_subsets ?C ?E (lit ''out'') ([] @ ?sn # []) Map.empty
      = ((labelmap_written ?C ?E (lit ''out'')
            (fst (convert_subsets ?C ?E (lit ''out'') [] Map.empty)))
           (path_join (lit ''out'') (chosen_name ?C ?sn @ lit ''.tfrecord'') \<mapsto>
              RecordFile [r]),
         Some (missing_image_error ?C item_without_image))"
    using T bad before fin sub lm by blast
  have err: "missing_image_error ?C item_without_image
      = Exception (lit ''Failed to export dataset item '' @ [39] @ item_id item_without_image
           @ [39] @ lit '': item has no image info'')"
    using T bad enc by blast
  have call: "call ?C ?E (lit ''out'') Map.empty
      = convert_subsets ?C ?E (lit ''out'') ([] @ ?sn # []) Map.empty"
    by (simp add: call_def example_extractor_def)
  have name: "chosen_name ?C ?sn = lit ''train''"
    by (simp add: chosen_name_def lit_def)
  have ident: "item_id item_without_image = [55]"
    by (simp add: item_without_image_def lit_def)
  show ?thesis
    unfolding call run name err ident by simp
qed

end
